theory Spec2Isabelle
  imports Main "HOL-Library.Word"
begin

unbundle bit_operations_syntax

section \<open>Machine types and status codes\<close>

type_synonym uint8 = "8 word"
type_synonym uint16 = "16 word"
type_synonym uint32 = "32 word"
type_synonym uint64 = "64 word"

text \<open>
  \<open>status_t\<close>: the Haiku status codes that the file system returns. The numeric values
  live in the Haiku headers; the code only compares them with each other.
\<close>

datatype status_t =
    B_OK | B_ERROR | B_NO_MEMORY | B_NO_INIT | B_BAD_VALUE | B_BUFFER_OVERFLOW
  | B_NAME_TOO_LONG | B_NOT_SUPPORTED | B_ENTRY_NOT_FOUND | B_PERMISSION_DENIED
  | B_IO_ERROR | B_DEV_NOT_READY | B_FILE_EXISTS | B_CROSS_DEVICE_LINK
  | B_NOT_A_DIRECTORY | B_IS_A_DIRECTORY | B_NO_MORE_FDS | B_DEVICE_FULL
  | B_READ_ONLY_DEVICE | B_DIRECTORY_NOT_EMPTY | B_DEVICE_NOT_FOUND

text \<open>9p.h: defaults, reserved handles and the message type codes.\<close>

definition P9_DEFAULT_MSIZE :: uint32 where "P9_DEFAULT_MSIZE = 8192"
definition P9_MAX_MSIZE :: uint32 where "P9_MAX_MSIZE = 65536"
definition P9_NOTAG :: uint16 where "P9_NOTAG = NOT 0"
definition P9_NOFID :: uint32 where "P9_NOFID = NOT 0"
definition P9_NONUNAME :: uint32 where "P9_NONUNAME = NOT 0"
definition P9_HEADER_SIZE :: uint32 where "P9_HEADER_SIZE = 7"

definition P9_RLERROR :: uint8 where "P9_RLERROR = 7"
definition P9_TSTATFS :: uint8 where "P9_TSTATFS = 8"
definition P9_RSTATFS :: uint8 where "P9_RSTATFS = 9"
definition P9_TLOPEN :: uint8 where "P9_TLOPEN = 12"
definition P9_RLOPEN :: uint8 where "P9_RLOPEN = 13"
definition P9_TLCREATE :: uint8 where "P9_TLCREATE = 14"
definition P9_RLCREATE :: uint8 where "P9_RLCREATE = 15"
definition P9_TSYMLINK :: uint8 where "P9_TSYMLINK = 16"
definition P9_RSYMLINK :: uint8 where "P9_RSYMLINK = 17"
definition P9_TREADLINK :: uint8 where "P9_TREADLINK = 22"
definition P9_RREADLINK :: uint8 where "P9_RREADLINK = 23"
definition P9_TGETATTR :: uint8 where "P9_TGETATTR = 24"
definition P9_RGETATTR :: uint8 where "P9_RGETATTR = 25"
definition P9_TSETATTR :: uint8 where "P9_TSETATTR = 26"
definition P9_RSETATTR :: uint8 where "P9_RSETATTR = 27"
definition P9_TREADDIR :: uint8 where "P9_TREADDIR = 40"
definition P9_RREADDIR :: uint8 where "P9_RREADDIR = 41"
definition P9_TFSYNC :: uint8 where "P9_TFSYNC = 50"
definition P9_RFSYNC :: uint8 where "P9_RFSYNC = 51"
definition P9_TLINK :: uint8 where "P9_TLINK = 70"
definition P9_RLINK :: uint8 where "P9_RLINK = 71"
definition P9_TMKDIR :: uint8 where "P9_TMKDIR = 72"
definition P9_RMKDIR :: uint8 where "P9_RMKDIR = 73"
definition P9_TRENAMEAT :: uint8 where "P9_TRENAMEAT = 74"
definition P9_RRENAMEAT :: uint8 where "P9_RRENAMEAT = 75"
definition P9_TUNLINKAT :: uint8 where "P9_TUNLINKAT = 76"
definition P9_RUNLINKAT :: uint8 where "P9_RUNLINKAT = 77"
definition P9_TVERSION :: uint8 where "P9_TVERSION = 100"
definition P9_RVERSION :: uint8 where "P9_RVERSION = 101"
definition P9_TATTACH :: uint8 where "P9_TATTACH = 104"
definition P9_RATTACH :: uint8 where "P9_RATTACH = 105"
definition P9_TWALK :: uint8 where "P9_TWALK = 110"
definition P9_RWALK :: uint8 where "P9_RWALK = 111"
definition P9_TREAD :: uint8 where "P9_TREAD = 116"
definition P9_RREAD :: uint8 where "P9_RREAD = 117"
definition P9_TWRITE :: uint8 where "P9_TWRITE = 118"
definition P9_RWRITE :: uint8 where "P9_RWRITE = 119"
definition P9_TCLUNK :: uint8 where "P9_TCLUNK = 120"
definition P9_RCLUNK :: uint8 where "P9_RCLUNK = 121"
definition P9_TREMOVE :: uint8 where "P9_TREMOVE = 122"
definition P9_RREMOVE :: uint8 where "P9_RREMOVE = 123"

lemmas P9_type_defs =
  P9_RLERROR_def P9_TSTATFS_def P9_RSTATFS_def P9_TLOPEN_def P9_RLOPEN_def
  P9_TLCREATE_def P9_RLCREATE_def P9_TSYMLINK_def P9_RSYMLINK_def P9_TREADLINK_def
  P9_RREADLINK_def P9_TGETATTR_def P9_RGETATTR_def P9_TSETATTR_def P9_RSETATTR_def
  P9_TREADDIR_def P9_RREADDIR_def P9_TFSYNC_def P9_RFSYNC_def P9_TLINK_def P9_RLINK_def
  P9_TMKDIR_def P9_RMKDIR_def P9_TRENAMEAT_def P9_RRENAMEAT_def P9_TUNLINKAT_def
  P9_RUNLINKAT_def P9_TVERSION_def P9_RVERSION_def P9_TATTACH_def P9_RATTACH_def
  P9_TWALK_def P9_RWALK_def P9_TREAD_def P9_RREAD_def P9_TWRITE_def P9_RWRITE_def
  P9_TCLUNK_def P9_RCLUNK_def P9_TREMOVE_def P9_RREMOVE_def

text \<open>
  C strings are byte lists. \<open>strlen\<close> counts up to the first NUL, so a list that
  holds a NUL is the string that ends there. \<open>P9_VERSION_9P2000_L\<close> is the literal
  \<^verbatim>\<open>"9P2000.L"\<close>.
\<close>

definition cstring :: "uint8 list \<Rightarrow> uint8 list" where
  "cstring s = takeWhile (\<lambda>c. c \<noteq> 0) s"

definition strlen :: "uint8 list \<Rightarrow> nat" where
  "strlen s = length (cstring s)"

definition strcmp_eq :: "uint8 list \<Rightarrow> uint8 list \<Rightarrow> bool" where
  "strcmp_eq a b \<longleftrightarrow> cstring a = cstring b"

definition bytes_of :: "string \<Rightarrow> uint8 list" where
  "bytes_of s = map of_char s"

definition P9_VERSION_9P2000_L :: "uint8 list" where
  "P9_VERSION_9P2000_L = bytes_of ''9P2000.L''"

section \<open>Little-endian integers (ByteOrder.h followed by memcpy)\<close>

definition lendian16 :: "uint16 \<Rightarrow> uint8 list" where
  "lendian16 v = [ucast v, ucast (drop_bit 8 v)]"

definition lendian32 :: "uint32 \<Rightarrow> uint8 list" where
  "lendian32 v = [ucast v, ucast (drop_bit 8 v), ucast (drop_bit 16 v), ucast (drop_bit 24 v)]"

definition lendian64 :: "uint64 \<Rightarrow> uint8 list" where
  "lendian64 v = [ucast v, ucast (drop_bit 8 v), ucast (drop_bit 16 v), ucast (drop_bit 24 v),
     ucast (drop_bit 32 v), ucast (drop_bit 40 v), ucast (drop_bit 48 v), ucast (drop_bit 56 v)]"

definition host16 :: "uint8 list \<Rightarrow> uint16" where
  "host16 bs = ucast (bs ! 0) OR push_bit 8 (ucast (bs ! 1))"

definition host32 :: "uint8 list \<Rightarrow> uint32" where
  "host32 bs = ucast (bs ! 0) OR push_bit 8 (ucast (bs ! 1)) OR push_bit 16 (ucast (bs ! 2))
     OR push_bit 24 (ucast (bs ! 3))"

definition host64 :: "uint8 list \<Rightarrow> uint64" where
  "host64 bs = ucast (bs ! 0) OR push_bit 8 (ucast (bs ! 1)) OR push_bit 16 (ucast (bs ! 2))
     OR push_bit 24 (ucast (bs ! 3)) OR push_bit 32 (ucast (bs ! 4)) OR push_bit 40 (ucast (bs ! 5))
     OR push_bit 48 (ucast (bs ! 6)) OR push_bit 56 (ucast (bs ! 7))"

section \<open>P9Buffer: the bounded cursor (9p_message.cpp)\<close>

text \<open>
  \<open>fBuffer\<close> holds the bytes of the region \<open>[0, fWritePos)\<close> of the allocation, so
  \<open>fWritePos\<close> is its length; \<open>fCapacity\<close> is the size of the allocation. The bytes
  between \<open>fWritePos\<close> and \<open>fCapacity\<close> are never read by the cursor (every read is
  checked against \<open>fWritePos\<close>) and are not represented. A failed write leaves the
  buffer as it was; a failed read leaves its out-parameter unassigned, which the
  result \<open>Inl status\<close> expresses.
\<close>

record P9Buffer =
  fBuffer :: "uint8 list"
  fCapacity :: nat
  fReadPos :: nat

definition fWritePos :: "P9Buffer \<Rightarrow> nat" where
  "fWritePos b = length (fBuffer b)"

definition P9Buffer_new :: "nat \<Rightarrow> P9Buffer" where
  "P9Buffer_new capacity = \<lparr>fBuffer = [], fCapacity = capacity, fReadPos = 0\<rparr>"

definition P9Buffer_Reset :: "P9Buffer \<Rightarrow> P9Buffer" where
  "P9Buffer_Reset b = b\<lparr>fBuffer := [], fReadPos := 0\<rparr>"

definition P9Buffer_ResetRead :: "P9Buffer \<Rightarrow> P9Buffer" where
  "P9Buffer_ResetRead b = b\<lparr>fReadPos := 0\<rparr>"

definition ReadRemaining :: "P9Buffer \<Rightarrow> nat" where
  "ReadRemaining b = fWritePos b - fReadPos b"

text \<open>The write of \<open>n\<close> bytes once the bound check has passed.\<close>

definition put :: "uint8 list \<Rightarrow> P9Buffer \<Rightarrow> P9Buffer" where
  "put bs b = b\<lparr>fBuffer := fBuffer b @ bs\<rparr>"

definition WriteUint8 :: "uint8 \<Rightarrow> P9Buffer \<Rightarrow> status_t \<times> P9Buffer" where
  "WriteUint8 v b =
     (if fWritePos b + 1 > fCapacity b then (B_BUFFER_OVERFLOW, b) else (B_OK, put [v] b))"

definition WriteUint16 :: "uint16 \<Rightarrow> P9Buffer \<Rightarrow> status_t \<times> P9Buffer" where
  "WriteUint16 v b =
     (if fWritePos b + 2 > fCapacity b then (B_BUFFER_OVERFLOW, b)
      else (B_OK, put (lendian16 v) b))"

definition WriteUint32 :: "uint32 \<Rightarrow> P9Buffer \<Rightarrow> status_t \<times> P9Buffer" where
  "WriteUint32 v b =
     (if fWritePos b + 4 > fCapacity b then (B_BUFFER_OVERFLOW, b)
      else (B_OK, put (lendian32 v) b))"

definition WriteUint64 :: "uint64 \<Rightarrow> P9Buffer \<Rightarrow> status_t \<times> P9Buffer" where
  "WriteUint64 v b =
     (if fWritePos b + 8 > fCapacity b then (B_BUFFER_OVERFLOW, b)
      else (B_OK, put (lendian64 v) b))"

text \<open>
  \<open>WriteString(str, len)\<close>, and \<open>WriteString(str)\<close> which narrows \<open>strlen(str)\<close> to
  16 bits before it calls the former.
\<close>

definition WriteStringLen :: "uint8 list \<Rightarrow> uint16 \<Rightarrow> P9Buffer \<Rightarrow> status_t \<times> P9Buffer" where
  "WriteStringLen str len b =
     (if fWritePos b + 2 + unat len > fCapacity b then (B_BUFFER_OVERFLOW, b)
      else case WriteUint16 len b of
        (status, b1) \<Rightarrow>
          if status \<noteq> B_OK then (status, b1)
          else if len > 0 then (B_OK, put (take (unat len) str) b1)
          else (B_OK, b1))"

definition WriteString :: "uint8 list \<Rightarrow> P9Buffer \<Rightarrow> status_t \<times> P9Buffer" where
  "WriteString str b = WriteStringLen str (word_of_nat (strlen str)) b"

record P9Qid =
  qid_type :: uint8
  qid_version :: uint32
  qid_path :: uint64

text \<open>A sequence of steps, each followed by \<^verbatim>\<open>if (status != B_OK) return status;\<close>.\<close>

fun in_sequence :: "('s \<Rightarrow> status_t \<times> 's) list \<Rightarrow> 's \<Rightarrow> status_t \<times> 's" where
  "in_sequence [] s = (B_OK, s)"
| "in_sequence [f] s = f s"
| "in_sequence (f # fs) s =
     (case f s of (status, s1) \<Rightarrow> if status \<noteq> B_OK then (status, s1) else in_sequence fs s1)"

definition WriteQid :: "P9Qid \<Rightarrow> P9Buffer \<Rightarrow> status_t \<times> P9Buffer" where
  "WriteQid qid =
     in_sequence [WriteUint8 (qid_type qid), WriteUint32 (qid_version qid),
                  WriteUint64 (qid_path qid)]"

definition ReadUint8 :: "P9Buffer \<Rightarrow> status_t + uint8 \<times> P9Buffer" where
  "ReadUint8 b =
     (if fReadPos b + 1 > fWritePos b then Inl B_BUFFER_OVERFLOW
      else Inr (fBuffer b ! fReadPos b, b\<lparr>fReadPos := fReadPos b + 1\<rparr>))"

definition ReadUint16 :: "P9Buffer \<Rightarrow> status_t + uint16 \<times> P9Buffer" where
  "ReadUint16 b =
     (if fReadPos b + 2 > fWritePos b then Inl B_BUFFER_OVERFLOW
      else Inr (host16 (drop (fReadPos b) (fBuffer b)), b\<lparr>fReadPos := fReadPos b + 2\<rparr>))"

definition ReadUint32 :: "P9Buffer \<Rightarrow> status_t + uint32 \<times> P9Buffer" where
  "ReadUint32 b =
     (if fReadPos b + 4 > fWritePos b then Inl B_BUFFER_OVERFLOW
      else Inr (host32 (drop (fReadPos b) (fBuffer b)), b\<lparr>fReadPos := fReadPos b + 4\<rparr>))"

definition ReadUint64 :: "P9Buffer \<Rightarrow> status_t + uint64 \<times> P9Buffer" where
  "ReadUint64 b =
     (if fReadPos b + 8 > fWritePos b then Inl B_BUFFER_OVERFLOW
      else Inr (host64 (drop (fReadPos b) (fBuffer b)), b\<lparr>fReadPos := fReadPos b + 8\<rparr>))"

text \<open>
  A read followed by \<^verbatim>\<open>if (status != B_OK) return status;\<close> and the rest of the
  function.
\<close>

definition and_then ::
  "status_t + 'a \<times> P9Buffer \<Rightarrow> ('a \<Rightarrow> P9Buffer \<Rightarrow> status_t + 'b) \<Rightarrow> status_t + 'b" where
  "and_then r f = (case r of Inl status \<Rightarrow> Inl status | Inr (v, b) \<Rightarrow> f v b)"

text \<open>
  \<open>ReadString\<close> into a caller's array of \<open>bufferSize\<close> bytes: the result is the
  \<open>len\<close> bytes copied (the array holds them followed by a NUL) and \<open>len\<close>.
\<close>

definition ReadString :: "nat \<Rightarrow> P9Buffer \<Rightarrow> status_t + (uint8 list \<times> uint16) \<times> P9Buffer" where
  "ReadString bufferSize b =
     and_then (ReadUint16 b) (\<lambda>len b1.
       if fReadPos b1 + unat len > fWritePos b1 then Inl B_BUFFER_OVERFLOW
       else if unat len \<ge> bufferSize then Inl B_NAME_TOO_LONG
       else Inr ((take (unat len) (drop (fReadPos b1) (fBuffer b1)), len),
                 b1\<lparr>fReadPos := fReadPos b1 + unat len\<rparr>))"

definition ReadQid :: "P9Buffer \<Rightarrow> status_t + P9Qid \<times> P9Buffer" where
  "ReadQid b =
     and_then (ReadUint8 b) (\<lambda>t b1.
     and_then (ReadUint32 b1) (\<lambda>v b2.
     and_then (ReadUint64 b2) (\<lambda>p b3.
       Inr (\<lparr>qid_type = t, qid_version = v, qid_path = p\<rparr>, b3))))"

section \<open>The environment of the client\<close>

text \<open>
  \<open>P9Transport\<close> (transport.h) is an abstract class; a transport is the pair of its
  \<open>SendMessage\<close> and \<open>ReceiveMessage\<close> methods, acting on the transport's own state
  \<open>'t\<close>. \<open>ReceiveMessage\<close> is given the capacity of the buffer and returns the frame
  it stored there; by its contract the frame is no longer than the capacity.

  The world outside the client is that transport state together with what the
  allocator and the kernel will answer:
  \<^item> \<open>heap\<close>: the outcomes of the allocations to come (\<open>malloc\<close>, \<open>calloc\<close>,
    \<open>strdup\<close>, \<open>new(std::nothrow)\<close>), \<open>True\<close> for memory returned; once the list
    is used up every allocation succeeds;
  \<^item> \<open>vfs\<close>: the statuses that the kernel's \<open>get_vnode\<close> and \<open>publish_vnode\<close> will
    return, in the order of the calls; once the list is used up \<open>get_vnode\<close> fails
    with \<open>B_ENTRY_NOT_FOUND\<close> (what \<open>fs_get_vnode\<close> of kernel_interface.cpp
    answers for a node that is not cached) and \<open>publish_vnode\<close> succeeds;
  \<^item> \<open>registry\<close>: the slots of \<open>sTransports\<close> (virtio_9p_device.cpp) that are in use,
    in slot order, each with its mount tag and transport;
  \<^item> \<open>junk32\<close> and \<open>junk_qid\<close>: the values that an uninitialised local of that type
    holds where the code reads one.
\<close>

record 't P9Transport =
  SendMessage :: "'t \<Rightarrow> uint8 list \<Rightarrow> status_t \<times> 't"
  ReceiveMessage :: "'t \<Rightarrow> nat \<Rightarrow> (status_t \<times> uint8 list) \<times> 't"

record 't world =
  transport :: 't
  heap :: "bool list"
  vfs :: "status_t list"
  registry :: "(uint8 list \<times> 't P9Transport) list"
  junk32 :: uint32
  junk_qid :: P9Qid

definition allocate :: "'t world \<Rightarrow> bool \<times> 't world" where
  "allocate w = (case heap w of [] \<Rightarrow> (True, w) | ok # rest \<Rightarrow> (ok, w\<lparr>heap := rest\<rparr>))"

section \<open>P9Message (9p_message.cpp)\<close>

text \<open>
  \<open>fData\<close> and the cursor \<open>fBuffer\<close> over it are one field here, \<open>msg_buffer\<close>;
  \<open>fData_set\<close> says whether \<open>fData\<close> has been allocated.
\<close>

record P9Message =
  msg_fMsize :: uint32
  msg_buffer :: P9Buffer
  fData_set :: bool
  fType :: uint8
  fTag :: uint16

definition P9Message_new :: "uint32 \<Rightarrow> P9Message" where
  "P9Message_new msize =
     \<lparr>msg_fMsize = msize, msg_buffer = P9Buffer_new 0, fData_set = False, fType = 0, fTag = 0\<rparr>"

definition P9Message_Init :: "P9Message \<Rightarrow> 't world \<Rightarrow> (status_t \<times> P9Message) \<times> 't world" where
  "P9Message_Init m w =
     (if \<not> fData_set m then
        (case allocate w of
           (ok, w1) \<Rightarrow>
             if \<not> ok then ((B_NO_MEMORY, m), w1)
             else ((B_OK, m\<lparr>fData_set := True,
                              msg_buffer := P9Buffer_new (unat (msg_fMsize m))\<rparr>), w1))
      else ((B_OK, m\<lparr>msg_buffer := P9Buffer_new (unat (msg_fMsize m))\<rparr>), w))"

definition P9Message_Reset :: "P9Message \<Rightarrow> P9Message" where
  "P9Message_Reset m = m\<lparr>msg_buffer := P9Buffer_Reset (msg_buffer m), fType := 0, fTag := 0\<rparr>"

definition P9Message_Size :: "P9Message \<Rightarrow> nat" where
  "P9Message_Size m = fWritePos (msg_buffer m)"

definition P9Message_Data :: "P9Message \<Rightarrow> uint8 list" where
  "P9Message_Data m = fBuffer (msg_buffer m)"

text \<open>A step of a builder that writes to the message's cursor.\<close>

definition on_buffer ::
  "(P9Buffer \<Rightarrow> status_t \<times> P9Buffer) \<Rightarrow> P9Message \<Rightarrow> status_t \<times> P9Message" where
  "on_buffer f m = (case f (msg_buffer m) of (status, b) \<Rightarrow> (status, m\<lparr>msg_buffer := b\<rparr>))"

definition WriteHeader :: "uint8 \<Rightarrow> uint16 \<Rightarrow> P9Message \<Rightarrow> status_t \<times> P9Message" where
  "WriteHeader type tag m =
     in_sequence [on_buffer (WriteUint32 0), on_buffer (WriteUint8 type),
                  on_buffer (WriteUint16 tag)] (m\<lparr>fType := type, fTag := tag\<rparr>)"

text \<open>\<open>FinalizeHeader\<close> copies the size over the first four bytes of \<open>fData\<close>.\<close>

definition FinalizeHeader :: "P9Message \<Rightarrow> status_t \<times> P9Message" where
  "FinalizeHeader m =
     (let b = msg_buffer m;
          size = lendian32 (word_of_nat (fWritePos b))
      in (B_OK, m\<lparr>msg_buffer := b\<lparr>fBuffer := size @ drop 4 (fBuffer b)\<rparr>\<rparr>))"

definition ReadHeader :: "P9Message \<Rightarrow> status_t + (uint8 \<times> uint16 \<times> uint32) \<times> P9Message" where
  "ReadHeader m =
     and_then (ReadUint32 (P9Buffer_ResetRead (msg_buffer m))) (\<lambda>size b1.
     and_then (ReadUint8 b1) (\<lambda>type b2.
     and_then (ReadUint16 b2) (\<lambda>tag b3.
       Inr ((type, tag, size), m\<lparr>msg_buffer := b3, fType := type, fTag := tag\<rparr>))))"

subsection \<open>Request builders\<close>

text \<open>
  Every builder is \<open>Reset\<close>, \<open>WriteHeader\<close>, the writes of the payload in order, each
  followed by the return on failure, and \<open>FinalizeHeader\<close>.
\<close>

definition builder ::
  "uint8 \<Rightarrow> uint16 \<Rightarrow> (P9Buffer \<Rightarrow> status_t \<times> P9Buffer) list \<Rightarrow> P9Message
     \<Rightarrow> status_t \<times> P9Message" where
  "builder type tag payload m =
     in_sequence (WriteHeader type tag # map on_buffer payload @ [FinalizeHeader])
       (P9Message_Reset m)"

definition BuildVersion :: "uint16 \<Rightarrow> uint32 \<Rightarrow> uint8 list \<Rightarrow> P9Message \<Rightarrow> status_t \<times> P9Message" where
  "BuildVersion tag msize version =
     builder P9_TVERSION tag [WriteUint32 msize, WriteString version]"

definition BuildAttach ::
  "uint16 \<Rightarrow> uint32 \<Rightarrow> uint32 \<Rightarrow> uint8 list \<Rightarrow> uint8 list \<Rightarrow> uint32 \<Rightarrow> P9Message
     \<Rightarrow> status_t \<times> P9Message" where
  "BuildAttach tag fid afid uname aname n_uname =
     builder P9_TATTACH tag
       [WriteUint32 fid, WriteUint32 afid, WriteString uname, WriteString aname,
        WriteUint32 n_uname]"

text \<open>The loop of \<open>BuildWalk\<close> writes the first \<open>nwname\<close> names.\<close>

definition BuildWalk ::
  "uint16 \<Rightarrow> uint32 \<Rightarrow> uint32 \<Rightarrow> uint16 \<Rightarrow> uint8 list list \<Rightarrow> P9Message
     \<Rightarrow> status_t \<times> P9Message" where
  "BuildWalk tag fid newfid nwname wnames =
     builder P9_TWALK tag
       ([WriteUint32 fid, WriteUint32 newfid, WriteUint16 nwname]
        @ map WriteString (take (unat nwname) wnames))"

definition BuildLopen :: "uint16 \<Rightarrow> uint32 \<Rightarrow> uint32 \<Rightarrow> P9Message \<Rightarrow> status_t \<times> P9Message" where
  "BuildLopen tag fid flags = builder P9_TLOPEN tag [WriteUint32 fid, WriteUint32 flags]"

definition BuildLcreate ::
  "uint16 \<Rightarrow> uint32 \<Rightarrow> uint8 list \<Rightarrow> uint32 \<Rightarrow> uint32 \<Rightarrow> uint32 \<Rightarrow> P9Message
     \<Rightarrow> status_t \<times> P9Message" where
  "BuildLcreate tag fid name flags mode gid =
     builder P9_TLCREATE tag
       [WriteUint32 fid, WriteString name, WriteUint32 flags, WriteUint32 mode, WriteUint32 gid]"

definition BuildRead ::
  "uint16 \<Rightarrow> uint32 \<Rightarrow> uint64 \<Rightarrow> uint32 \<Rightarrow> P9Message \<Rightarrow> status_t \<times> P9Message" where
  "BuildRead tag fid offset count =
     builder P9_TREAD tag [WriteUint32 fid, WriteUint64 offset, WriteUint32 count]"

text \<open>
  \<open>BuildWrite\<close> checks the room for the payload once and then appends its \<open>count\<close>
  bytes one by one, ignoring the status of each \<open>WriteUint8\<close>.
\<close>

definition write_payload :: "uint8 list \<Rightarrow> uint32 \<Rightarrow> P9Buffer \<Rightarrow> status_t \<times> P9Buffer" where
  "write_payload data count b =
     (if count > 0 then
        if fWritePos b + unat count > fCapacity b then (B_BUFFER_OVERFLOW, b)
        else (B_OK, fold (\<lambda>v b'. snd (WriteUint8 v b')) (take (unat count) data) b)
      else (B_OK, b))"

definition BuildWrite ::
  "uint16 \<Rightarrow> uint32 \<Rightarrow> uint64 \<Rightarrow> uint8 list \<Rightarrow> uint32 \<Rightarrow> P9Message \<Rightarrow> status_t \<times> P9Message" where
  "BuildWrite tag fid offset data count =
     builder P9_TWRITE tag
       [WriteUint32 fid, WriteUint64 offset, WriteUint32 count, write_payload data count]"

definition BuildClunk :: "uint16 \<Rightarrow> uint32 \<Rightarrow> P9Message \<Rightarrow> status_t \<times> P9Message" where
  "BuildClunk tag fid = builder P9_TCLUNK tag [WriteUint32 fid]"

definition BuildRemove :: "uint16 \<Rightarrow> uint32 \<Rightarrow> P9Message \<Rightarrow> status_t \<times> P9Message" where
  "BuildRemove tag fid = builder P9_TREMOVE tag [WriteUint32 fid]"

definition BuildGetattr :: "uint16 \<Rightarrow> uint32 \<Rightarrow> uint64 \<Rightarrow> P9Message \<Rightarrow> status_t \<times> P9Message" where
  "BuildGetattr tag fid req_mask =
     builder P9_TGETATTR tag [WriteUint32 fid, WriteUint64 req_mask]"

definition BuildSetattr ::
  "uint16 \<Rightarrow> uint32 \<Rightarrow> uint32 \<Rightarrow> uint32 \<Rightarrow> uint32 \<Rightarrow> uint32 \<Rightarrow> uint64 \<Rightarrow> uint64 \<Rightarrow> uint64
     \<Rightarrow> uint64 \<Rightarrow> uint64 \<Rightarrow> P9Message \<Rightarrow> status_t \<times> P9Message" where
  "BuildSetattr tag fid valid mode uid gid fsize atime_sec atime_nsec mtime_sec mtime_nsec =
     builder P9_TSETATTR tag
       [WriteUint32 fid, WriteUint32 valid, WriteUint32 mode, WriteUint32 uid, WriteUint32 gid,
        WriteUint64 fsize, WriteUint64 atime_sec, WriteUint64 atime_nsec, WriteUint64 mtime_sec,
        WriteUint64 mtime_nsec]"

definition BuildReaddir ::
  "uint16 \<Rightarrow> uint32 \<Rightarrow> uint64 \<Rightarrow> uint32 \<Rightarrow> P9Message \<Rightarrow> status_t \<times> P9Message" where
  "BuildReaddir tag fid offset count =
     builder P9_TREADDIR tag [WriteUint32 fid, WriteUint64 offset, WriteUint32 count]"

definition BuildMkdir ::
  "uint16 \<Rightarrow> uint32 \<Rightarrow> uint8 list \<Rightarrow> uint32 \<Rightarrow> uint32 \<Rightarrow> P9Message \<Rightarrow> status_t \<times> P9Message" where
  "BuildMkdir tag dfid name mode gid =
     builder P9_TMKDIR tag [WriteUint32 dfid, WriteString name, WriteUint32 mode, WriteUint32 gid]"

definition BuildUnlinkat ::
  "uint16 \<Rightarrow> uint32 \<Rightarrow> uint8 list \<Rightarrow> uint32 \<Rightarrow> P9Message \<Rightarrow> status_t \<times> P9Message" where
  "BuildUnlinkat tag dfid name flags =
     builder P9_TUNLINKAT tag [WriteUint32 dfid, WriteString name, WriteUint32 flags]"

definition BuildRenameat ::
  "uint16 \<Rightarrow> uint32 \<Rightarrow> uint8 list \<Rightarrow> uint32 \<Rightarrow> uint8 list \<Rightarrow> P9Message \<Rightarrow> status_t \<times> P9Message" where
  "BuildRenameat tag olddirfid oldname newdirfid newname =
     builder P9_TRENAMEAT tag
       [WriteUint32 olddirfid, WriteString oldname, WriteUint32 newdirfid, WriteString newname]"

definition BuildStatfs :: "uint16 \<Rightarrow> uint32 \<Rightarrow> P9Message \<Rightarrow> status_t \<times> P9Message" where
  "BuildStatfs tag fid = builder P9_TSTATFS tag [WriteUint32 fid]"

definition BuildFsync :: "uint16 \<Rightarrow> uint32 \<Rightarrow> uint32 \<Rightarrow> P9Message \<Rightarrow> status_t \<times> P9Message" where
  "BuildFsync tag fid datasync = builder P9_TFSYNC tag [WriteUint32 fid, WriteUint32 datasync]"

definition BuildReadlink :: "uint16 \<Rightarrow> uint32 \<Rightarrow> P9Message \<Rightarrow> status_t \<times> P9Message" where
  "BuildReadlink tag fid = builder P9_TREADLINK tag [WriteUint32 fid]"

definition BuildSymlink ::
  "uint16 \<Rightarrow> uint32 \<Rightarrow> uint8 list \<Rightarrow> uint8 list \<Rightarrow> uint32 \<Rightarrow> P9Message \<Rightarrow> status_t \<times> P9Message" where
  "BuildSymlink tag dfid name target gid =
     builder P9_TSYMLINK tag [WriteUint32 dfid, WriteString name, WriteString target, WriteUint32 gid]"

definition BuildLink ::
  "uint16 \<Rightarrow> uint32 \<Rightarrow> uint32 \<Rightarrow> uint8 list \<Rightarrow> P9Message \<Rightarrow> status_t \<times> P9Message" where
  "BuildLink tag dfid fid name =
     builder P9_TLINK tag [WriteUint32 dfid, WriteUint32 fid, WriteString name]"

subsection \<open>Response parsers\<close>

text \<open>
  A parser reads from the cursor of a response whose header has been read. The
  response is deleted by every caller right after, so a parser returns the values it
  assigns, or the status of the read that failed.
\<close>

record P9Attr =
  attr_valid :: uint64
  attr_qid :: P9Qid
  attr_mode :: uint32
  attr_uid :: uint32
  attr_gid :: uint32
  attr_nlink :: uint64
  attr_rdev :: uint64
  attr_size :: uint64
  attr_blksize :: uint64
  attr_blocks :: uint64
  attr_atime_sec :: uint64
  attr_atime_nsec :: uint64
  attr_mtime_sec :: uint64
  attr_mtime_nsec :: uint64
  attr_ctime_sec :: uint64
  attr_ctime_nsec :: uint64
  attr_btime_sec :: uint64
  attr_btime_nsec :: uint64
  attr_gen :: uint64
  attr_data_version :: uint64

record P9StatFS =
  statfs_type :: uint32
  statfs_bsize :: uint32
  statfs_blocks :: uint64
  statfs_bfree :: uint64
  statfs_bavail :: uint64
  statfs_files :: uint64
  statfs_ffree :: uint64
  statfs_fsid :: uint64
  statfs_namelen :: uint32

definition value_of :: "status_t + 'a \<times> P9Buffer \<Rightarrow> status_t + 'a" where
  "value_of r = (case r of Inl status \<Rightarrow> Inl status | Inr (v, b) \<Rightarrow> Inr v)"

definition ParseLerror :: "P9Message \<Rightarrow> status_t + uint32" where
  "ParseLerror m = value_of (ReadUint32 (msg_buffer m))"

definition ParseVersion :: "nat \<Rightarrow> P9Message \<Rightarrow> status_t + uint32 \<times> uint8 list" where
  "ParseVersion versionSize m =
     and_then (ReadUint32 (msg_buffer m)) (\<lambda>msize b1.
     and_then (ReadString versionSize b1) (\<lambda>(version, len) b2.
       Inr (msize, version)))"

definition ParseAttach :: "P9Message \<Rightarrow> status_t + P9Qid" where
  "ParseAttach m = value_of (ReadQid (msg_buffer m))"

text \<open>The loop of \<open>ParseWalk\<close>: \<open>n\<close> more qids to read into the array.\<close>

fun read_qids :: "nat \<Rightarrow> P9Buffer \<Rightarrow> status_t + P9Qid list" where
  "read_qids 0 b = Inr []"
| "read_qids (Suc n) b =
     and_then (ReadQid b) (\<lambda>qid b1.
       case read_qids n b1 of Inl status \<Rightarrow> Inl status | Inr qids \<Rightarrow> Inr (qid # qids))"

definition ParseWalk :: "uint16 \<Rightarrow> P9Message \<Rightarrow> status_t + uint16 \<times> P9Qid list" where
  "ParseWalk maxQids m =
     and_then (ReadUint16 (msg_buffer m)) (\<lambda>nwqid b1.
       if nwqid > maxQids then Inl B_BUFFER_OVERFLOW
       else case read_qids (unat nwqid) b1 of
              Inl status \<Rightarrow> Inl status
            | Inr qids \<Rightarrow> Inr (nwqid, qids))"

definition ParseLopen :: "P9Message \<Rightarrow> status_t + P9Qid \<times> uint32" where
  "ParseLopen m =
     and_then (ReadQid (msg_buffer m)) (\<lambda>qid b1.
     and_then (ReadUint32 b1) (\<lambda>iounit b2. Inr (qid, iounit)))"

definition ParseLcreate :: "P9Message \<Rightarrow> status_t + P9Qid \<times> uint32" where
  "ParseLcreate m =
     and_then (ReadQid (msg_buffer m)) (\<lambda>qid b1.
     and_then (ReadUint32 b1) (\<lambda>iounit b2. Inr (qid, iounit)))"

text \<open>
  \<open>ParseRead\<close> and \<open>ParseReaddir\<close> return the count field and a pointer to the bytes
  that follow it in the frame: here the count and those bytes.
\<close>

definition ParseRead :: "P9Message \<Rightarrow> status_t + uint32 \<times> uint8 list" where
  "ParseRead m =
     and_then (ReadUint32 (msg_buffer m)) (\<lambda>count b1.
       Inr (count, drop (fReadPos b1) (fBuffer b1)))"

definition ParseWrite :: "P9Message \<Rightarrow> status_t + uint32" where
  "ParseWrite m = value_of (ReadUint32 (msg_buffer m))"

definition ParseGetattr :: "P9Message \<Rightarrow> status_t + P9Attr" where
  "ParseGetattr m =
     and_then (ReadUint64 (msg_buffer m)) (\<lambda>valid b.
     and_then (ReadQid b) (\<lambda>qid b.
     and_then (ReadUint32 b) (\<lambda>mode b.
     and_then (ReadUint32 b) (\<lambda>uid b.
     and_then (ReadUint32 b) (\<lambda>gid b.
     and_then (ReadUint64 b) (\<lambda>nlink b.
     and_then (ReadUint64 b) (\<lambda>rdev b.
     and_then (ReadUint64 b) (\<lambda>fsize b.
     and_then (ReadUint64 b) (\<lambda>blksize b.
     and_then (ReadUint64 b) (\<lambda>blocks b.
     and_then (ReadUint64 b) (\<lambda>atime_sec b.
     and_then (ReadUint64 b) (\<lambda>atime_nsec b.
     and_then (ReadUint64 b) (\<lambda>mtime_sec b.
     and_then (ReadUint64 b) (\<lambda>mtime_nsec b.
     and_then (ReadUint64 b) (\<lambda>ctime_sec b.
     and_then (ReadUint64 b) (\<lambda>ctime_nsec b.
     and_then (ReadUint64 b) (\<lambda>btime_sec b.
     and_then (ReadUint64 b) (\<lambda>btime_nsec b.
     and_then (ReadUint64 b) (\<lambda>gen b.
     and_then (ReadUint64 b) (\<lambda>data_version b.
       Inr \<lparr>attr_valid = valid, attr_qid = qid, attr_mode = mode, attr_uid = uid,
            attr_gid = gid, attr_nlink = nlink, attr_rdev = rdev, attr_size = fsize,
            attr_blksize = blksize, attr_blocks = blocks, attr_atime_sec = atime_sec,
            attr_atime_nsec = atime_nsec, attr_mtime_sec = mtime_sec,
            attr_mtime_nsec = mtime_nsec, attr_ctime_sec = ctime_sec,
            attr_ctime_nsec = ctime_nsec, attr_btime_sec = btime_sec,
            attr_btime_nsec = btime_nsec, attr_gen = gen,
            attr_data_version = data_version\<rparr>))))))))))))))))))))"

definition ParseReaddir :: "P9Message \<Rightarrow> status_t + uint32 \<times> uint8 list" where
  "ParseReaddir m =
     and_then (ReadUint32 (msg_buffer m)) (\<lambda>count b1.
       Inr (count, drop (fReadPos b1) (fBuffer b1)))"

definition ParseStatfs :: "P9Message \<Rightarrow> status_t + P9StatFS" where
  "ParseStatfs m =
     and_then (ReadUint32 (msg_buffer m)) (\<lambda>type b.
     and_then (ReadUint32 b) (\<lambda>bsize b.
     and_then (ReadUint64 b) (\<lambda>blocks b.
     and_then (ReadUint64 b) (\<lambda>bfree b.
     and_then (ReadUint64 b) (\<lambda>bavail b.
     and_then (ReadUint64 b) (\<lambda>files b.
     and_then (ReadUint64 b) (\<lambda>ffree b.
     and_then (ReadUint64 b) (\<lambda>fsid b.
     and_then (ReadUint32 b) (\<lambda>namelen b.
       Inr \<lparr>statfs_type = type, statfs_bsize = bsize, statfs_blocks = blocks,
            statfs_bfree = bfree, statfs_bavail = bavail, statfs_files = files,
            statfs_ffree = ffree, statfs_fsid = fsid, statfs_namelen = namelen\<rparr>)))))))))"

definition ParseMkdir :: "P9Message \<Rightarrow> status_t + P9Qid" where
  "ParseMkdir m = value_of (ReadQid (msg_buffer m))"

definition ParseSymlink :: "P9Message \<Rightarrow> status_t + P9Qid" where
  "ParseSymlink m = value_of (ReadQid (msg_buffer m))"

definition ParseReadlink :: "nat \<Rightarrow> P9Message \<Rightarrow> status_t + uint8 list" where
  "ParseReadlink targetSize m =
     and_then (ReadString targetSize (msg_buffer m)) (\<lambda>(target, len) b. Inr target)"

section \<open>Error mapping (kernel_interface.cpp)\<close>

definition p9_error_to_haiku :: "uint32 \<Rightarrow> status_t" where
  "p9_error_to_haiku error =
     (if error = 0 then B_OK
      else if error = 1 then B_PERMISSION_DENIED
      else if error = 2 then B_ENTRY_NOT_FOUND
      else if error = 5 then B_IO_ERROR
      else if error = 6 then B_DEV_NOT_READY
      else if error = 13 then B_PERMISSION_DENIED
      else if error = 17 then B_FILE_EXISTS
      else if error = 18 then B_CROSS_DEVICE_LINK
      else if error = 19 then B_DEV_NOT_READY
      else if error = 20 then B_NOT_A_DIRECTORY
      else if error = 21 then B_IS_A_DIRECTORY
      else if error = 22 then B_BAD_VALUE
      else if error = 23 then B_NO_MORE_FDS
      else if error = 24 then B_NO_MORE_FDS
      else if error = 28 then B_DEVICE_FULL
      else if error = 29 then B_BAD_VALUE
      else if error = 30 then B_READ_ONLY_DEVICE
      else if error = 36 then B_NAME_TOO_LONG
      else if error = 39 then B_DIRECTORY_NOT_EMPTY
      else if error = 61 then B_ENTRY_NOT_FOUND
      else if error = 75 then B_BUFFER_OVERFLOW
      else if error = 95 then B_NOT_SUPPORTED
      else B_ERROR)"

section \<open>Handle pools (9p_client.cpp)\<close>

text \<open>
  \<open>fBitmap\<close> is the array of \<open>fBitmapSize\<close> 32-bit words; the bit of handle \<open>h\<close> is
  bit \<open>h mod 32\<close> of word \<open>h div 32\<close>. The mutex is not modelled: the operations run
  one at a time.
\<close>

record FidPool =
  fid_fBitmap :: "uint32 list"
  fMaxFids :: uint32
  fid_fBitmapSize :: uint32
  fid_fNextHint :: uint32

definition FidPool_new :: FidPool where
  "FidPool_new = \<lparr>fid_fBitmap = [], fMaxFids = 0, fid_fBitmapSize = 0, fid_fNextHint = 0\<rparr>"

text \<open>
  \<open>Init\<close> allocates the zeroed bitmap and reserves FID 0. (With \<open>maxFids = 0\<close> the
  source writes to an empty array; the client only passes 256.)
\<close>

definition FidPool_Init :: "uint32 \<Rightarrow> FidPool \<Rightarrow> 't world \<Rightarrow> (status_t \<times> FidPool) \<times> 't world" where
  "FidPool_Init maxFids p w =
     (let size = (maxFids + 31) div 32;
          p1 = p\<lparr>fMaxFids := maxFids, fid_fBitmapSize := size\<rparr>
      in case allocate w of
           (ok, w1) \<Rightarrow>
             if \<not> ok then ((B_NO_MEMORY, p1), w1)
             else let bitmap = replicate (unat size) (0 :: uint32)
                  in ((B_OK, p1\<lparr>fid_fBitmap := bitmap[0 := bitmap ! 0 OR 1],
                                  fid_fNextHint := 1\<rparr>), w1))"

function FidPool_scan :: "FidPool \<Rightarrow> nat \<Rightarrow> uint32 \<times> FidPool" where
  "FidPool_scan p i =
     (if i < unat (fMaxFids p) then
        (let fid = (fid_fNextHint p + word_of_nat i) mod fMaxFids p;
             word_i = unat (fid div 32);
             bit_i = unat (fid mod 32)
         in if (fid_fBitmap p ! word_i) AND push_bit bit_i 1 = 0 then
              (fid, p\<lparr>fid_fBitmap :=
                          (fid_fBitmap p)[word_i := fid_fBitmap p ! word_i OR push_bit bit_i 1],
                       fid_fNextHint := (fid + 1) mod fMaxFids p\<rparr>)
            else FidPool_scan p (i + 1))
      else (P9_NOFID, p))"
  by pat_completeness auto
termination
  by (relation "measure (\<lambda>(p, i). unat (fMaxFids p) - i)") auto

definition FidPool_Allocate :: "FidPool \<Rightarrow> uint32 \<times> FidPool" where
  "FidPool_Allocate p = FidPool_scan p 0"

definition FidPool_Release :: "FidPool \<Rightarrow> uint32 \<Rightarrow> FidPool" where
  "FidPool_Release p fid =
     (if fid \<ge> fMaxFids p then p
      else let word_i = unat (fid div 32);
               bit_i = unat (fid mod 32)
           in p\<lparr>fid_fBitmap :=
                  (fid_fBitmap p)[word_i := fid_fBitmap p ! word_i AND NOT (push_bit bit_i 1)]\<rparr>)"

definition FidPool_IsValid :: "FidPool \<Rightarrow> uint32 \<Rightarrow> bool" where
  "FidPool_IsValid p fid =
     (if fid \<ge> fMaxFids p then False
      else (fid_fBitmap p ! unat (fid div 32)) AND push_bit (unat (fid mod 32)) 1 \<noteq> 0)"

text \<open>
  The tag pool has 16-bit handles; \<open>(fNextHint + i) % fMaxTags\<close> is computed in
  \<open>int\<close> after promotion, so it does not wrap.
\<close>

record TagPool =
  tag_fBitmap :: "uint32 list"
  fMaxTags :: uint16
  tag_fBitmapSize :: uint32
  tag_fNextHint :: uint16

definition TagPool_new :: TagPool where
  "TagPool_new = \<lparr>tag_fBitmap = [], fMaxTags = 0, tag_fBitmapSize = 0, tag_fNextHint = 0\<rparr>"

definition TagPool_Init :: "uint16 \<Rightarrow> TagPool \<Rightarrow> 't world \<Rightarrow> (status_t \<times> TagPool) \<times> 't world" where
  "TagPool_Init maxTags p w =
     (let size = (unat maxTags + 31) div 32;
          p1 = p\<lparr>fMaxTags := maxTags, tag_fBitmapSize := word_of_nat size\<rparr>
      in case allocate w of
           (ok, w1) \<Rightarrow>
             if \<not> ok then ((B_NO_MEMORY, p1), w1)
             else ((B_OK, p1\<lparr>tag_fBitmap := replicate size 0, tag_fNextHint := 0\<rparr>), w1))"

function TagPool_scan :: "TagPool \<Rightarrow> nat \<Rightarrow> uint16 \<times> TagPool" where
  "TagPool_scan p i =
     (if i < unat (fMaxTags p) then
        (let tag = (unat (tag_fNextHint p) + i) mod unat (fMaxTags p);
             word_i = tag div 32;
             bit_i = tag mod 32
         in if (tag_fBitmap p ! word_i) AND push_bit bit_i 1 = 0 then
              (word_of_nat tag,
               p\<lparr>tag_fBitmap :=
                    (tag_fBitmap p)[word_i := tag_fBitmap p ! word_i OR push_bit bit_i 1],
                 tag_fNextHint := word_of_nat ((tag + 1) mod unat (fMaxTags p))\<rparr>)
            else TagPool_scan p (i + 1))
      else (P9_NOTAG, p))"
  by pat_completeness auto
termination
  by (relation "measure (\<lambda>(p, i). unat (fMaxTags p) - i)") auto

definition TagPool_Allocate :: "TagPool \<Rightarrow> uint16 \<times> TagPool" where
  "TagPool_Allocate p = TagPool_scan p 0"

definition TagPool_Release :: "TagPool \<Rightarrow> uint16 \<Rightarrow> TagPool" where
  "TagPool_Release p tag =
     (if tag \<ge> fMaxTags p \<or> tag = P9_NOTAG then p
      else let word_i = unat tag div 32;
               bit_i = unat tag mod 32
           in p\<lparr>tag_fBitmap :=
                  (tag_fBitmap p)[word_i := tag_fBitmap p ! word_i AND NOT (push_bit bit_i 1)]\<rparr>)"

section \<open>P9Client (9p_client.cpp)\<close>

record 't P9Client =
  fTransport :: "'t P9Transport option"
  fFidPool :: FidPool
  fTagPool :: TagPool
  fMsize :: uint32
  fIOUnit :: uint32
  fRootFid :: uint32
  fConnected :: bool

definition P9Client_new :: "'t P9Client" where
  "P9Client_new =
     \<lparr>fTransport = None, fFidPool = FidPool_new, fTagPool = TagPool_new,
      fMsize = P9_DEFAULT_MSIZE, fIOUnit = 0, fRootFid = 0, fConnected = False\<rparr>"

text \<open>\<open>Init(transport, msize)\<close>; the pools are initialised with their default of 256.\<close>

definition P9Client_Init ::
  "'t P9Transport option \<Rightarrow> uint32 \<Rightarrow> 't P9Client \<Rightarrow> 't world
     \<Rightarrow> status_t \<times> 't P9Client \<times> 't world" where
  "P9Client_Init tr msize c w =
     (if tr = None then (B_BAD_VALUE, c, w)
      else let c1 = c\<lparr>fTransport := tr, fMsize := msize\<rparr>
           in case FidPool_Init 256 (fFidPool c1) w of
                ((status, fp), w1) \<Rightarrow>
                  let c2 = c1\<lparr>fFidPool := fp\<rparr>
                  in if status \<noteq> B_OK then (status, c2, w1)
                     else case TagPool_Init 256 (fTagPool c2) w1 of
                            ((status, tp), w2) \<Rightarrow>
                              let c3 = c2\<lparr>fTagPool := tp\<rparr>
                              in if status \<noteq> B_OK then (status, c3, w2)
                                 else (B_OK, c3, w2))"

definition AllocateFid :: "'t P9Client \<Rightarrow> uint32 \<times> 't P9Client" where
  "AllocateFid c = (case FidPool_Allocate (fFidPool c) of (fid, p) \<Rightarrow> (fid, c\<lparr>fFidPool := p\<rparr>))"

definition ReleaseFid :: "'t P9Client \<Rightarrow> uint32 \<Rightarrow> 't P9Client" where
  "ReleaseFid c fid = c\<lparr>fFidPool := FidPool_Release (fFidPool c) fid\<rparr>"

text \<open>
  \<open>DoRequest\<close>: send the request's \<open>Size()\<close> bytes, allocate and initialise the
  response, receive into it and set its size to what was received. The operations
  never test \<open>fTransport\<close>; a call on a client without one dereferences a null
  pointer, which is outside what the model describes: it is stopped with \<open>B_NO_INIT\<close>
  and the properties below are stated for clients that have a transport.
\<close>

definition DoRequest :: "'t P9Client \<Rightarrow> P9Message \<Rightarrow> 't world \<Rightarrow> (status_t + P9Message) \<times> 't world" where
  "DoRequest c request w =
     (case fTransport c of
        None \<Rightarrow> (Inl B_NO_INIT, w)
      | Some tr \<Rightarrow>
          (case SendMessage tr (transport w)
                  (take (P9Message_Size request) (P9Message_Data request)) of
             (status, t1) \<Rightarrow>
               let w1 = w\<lparr>transport := t1\<rparr>
               in if status \<noteq> B_OK then (Inl status, w1)
                  else case allocate w1 of
                    (ok, w2) \<Rightarrow>
                      if \<not> ok then (Inl B_NO_MEMORY, w2)
                      else case P9Message_Init (P9Message_new (fMsize c)) w2 of
                        ((status, response), w3) \<Rightarrow>
                          if status \<noteq> B_OK then (Inl status, w3)
                          else case ReceiveMessage tr (transport w3) (unat (fMsize c)) of
                            ((status, frame), t4) \<Rightarrow>
                              let w4 = w3\<lparr>transport := t4\<rparr>
                              in if status \<noteq> B_OK then (Inl status, w4)
                                 else (Inr (response\<lparr>msg_buffer :=
                                              (msg_buffer response)\<lparr>fBuffer := frame\<rparr>\<rparr>),
                                       w4)))"

text \<open>
  \<open>CheckError\<close> reads the header and maps an \<open>Rlerror\<close>. The status of \<open>ParseLerror\<close>
  is not looked at: when the frame ends before the errno, \<open>error\<close> is the
  uninitialised local.
\<close>

definition CheckError :: "'t world \<Rightarrow> P9Message \<Rightarrow> status_t \<times> P9Message" where
  "CheckError w response =
     (case ReadHeader response of
        Inl status \<Rightarrow> (status, response)
      | Inr ((type, tag, frame_size), response1) \<Rightarrow>
          if type = P9_RLERROR then
            (p9_error_to_haiku
               (case ParseLerror response1 of Inl status \<Rightarrow> junk32 w | Inr error \<Rightarrow> error),
             response1)
          else (B_OK, response1))"

text \<open>
  Every operation opens with the same statements: construct and \<open>Init\<close> the request,
  allocate a tag, build the request (releasing the tag and returning when that
  fails), \<open>DoRequest\<close>, release the tag, return when \<open>DoRequest\<close> failed.
  \<open>Transaction\<close> is that block, with the call of the builder as its parameter; it
  yields the status returned early, or the response.
\<close>

definition Transaction ::
  "(uint16 \<Rightarrow> P9Message \<Rightarrow> status_t \<times> P9Message) \<Rightarrow> 't P9Client \<Rightarrow> 't world
     \<Rightarrow> (status_t + P9Message) \<times> 't P9Client \<times> 't world" where
  "Transaction build c w =
     (case P9Message_Init (P9Message_new (fMsize c)) w of
        ((status, request), w1) \<Rightarrow>
          if status \<noteq> B_OK then (Inl status, c, w1)
          else case TagPool_Allocate (fTagPool c) of
            (tag, tp) \<Rightarrow>
              let c1 = c\<lparr>fTagPool := tp\<rparr>
              in case build tag request of
                (status, request1) \<Rightarrow>
                  if status \<noteq> B_OK then
                    (Inl status, c1\<lparr>fTagPool := TagPool_Release (fTagPool c1) tag\<rparr>, w1)
                  else case DoRequest c1 request1 w1 of
                    (r, w2) \<Rightarrow> (r, c1\<lparr>fTagPool := TagPool_Release (fTagPool c1) tag\<rparr>, w2))"

subsection \<open>Connection management\<close>

text \<open>
  \<open>Connect\<close>, second half (from the comment \<^verbatim>\<open>// Attach to filesystem\<close> on):
  \<open>request\<close> is the message of the version exchange, reused after \<open>Reset\<close>.
\<close>

definition Connect_attach ::
  "'t P9Client \<Rightarrow> 't world \<Rightarrow> P9Message \<Rightarrow> uint8 list \<Rightarrow> status_t \<times> 't P9Client \<times> 't world" where
  "Connect_attach c w request aname =
     (case FidPool_Allocate (fFidPool c) of
        (fid, fp) \<Rightarrow>
          let c1 = c\<lparr>fFidPool := fp, fRootFid := fid\<rparr>;
              released = c1\<lparr>fFidPool := FidPool_Release (fFidPool c1) (fRootFid c1)\<rparr>
          in if fRootFid c1 = P9_NOFID then (B_NO_MEMORY, c1, w)
             else case P9Message_Init (P9Message_Reset request) w of
               ((status, request1), w1) \<Rightarrow>
                 if status \<noteq> B_OK then (status, released, w1)
                 else case TagPool_Allocate (fTagPool c1) of
                   (attachTag, tp) \<Rightarrow>
                     let untagged = \<lambda>c'. c'\<lparr>fTagPool := TagPool_Release tp attachTag\<rparr>
                     in case BuildAttach attachTag (fRootFid c1) P9_NOFID [] aname P9_NONUNAME
                               request1 of
                       (status, request2) \<Rightarrow>
                         if status \<noteq> B_OK then (status, untagged released, w1)
                         else case DoRequest (c1\<lparr>fTagPool := tp\<rparr>) request2 w1 of
                           (Inl status, w2) \<Rightarrow> (status, untagged released, w2)
                         | (Inr response, w2) \<Rightarrow>
                             (case ReadHeader response of
                                Inl status \<Rightarrow> (status, untagged released, w2)
                              | Inr ((type, tag, frame_size), response1) \<Rightarrow>
                                  if type = P9_RLERROR then
                                    (p9_error_to_haiku
                                       (case ParseLerror response1 of
                                          Inl status \<Rightarrow> junk32 w2
                                        | Inr error \<Rightarrow> error),
                                     untagged released, w2)
                                  else if type \<noteq> P9_RATTACH then
                                    (B_ERROR, untagged released, w2)
                                  else case ParseAttach response1 of
                                    Inl status \<Rightarrow> (status, untagged released, w2)
                                  | Inr qid \<Rightarrow>
                                      (B_OK,
                                       (untagged c1)
                                         \<lparr>fIOUnit := fMsize c1 - P9_HEADER_SIZE - 4,
                                          fConnected := True\<rparr>,
                                       w2)))"

definition Connect :: "'t P9Client \<Rightarrow> 't world \<Rightarrow> uint8 list \<Rightarrow> status_t \<times> 't P9Client \<times> 't world" where
  "Connect c w aname =
     (if fTransport c = None then (B_NO_INIT, c, w)
      else if fConnected c then (B_OK, c, w)
      else case P9Message_Init (P9Message_new (fMsize c)) w of
        ((status, request), w1) \<Rightarrow>
          if status \<noteq> B_OK then (status, c, w1)
          else case BuildVersion P9_NOTAG (fMsize c) P9_VERSION_9P2000_L request of
            (status, request1) \<Rightarrow>
              if status \<noteq> B_OK then (status, c, w1)
              else case DoRequest c request1 w1 of
                (Inl status, w2) \<Rightarrow> (status, c, w2)
              | (Inr response, w2) \<Rightarrow>
                  (case ReadHeader response of
                     Inl status \<Rightarrow> (status, c, w2)
                   | Inr ((type, tag, frame_size), response1) \<Rightarrow>
                       if type \<noteq> P9_RVERSION then (B_ERROR, c, w2)
                       else case ParseVersion 32 response1 of
                         Inl status \<Rightarrow> (status, c, w2)
                       | Inr (serverMsize, version) \<Rightarrow>
                           let c1 = (if serverMsize < fMsize c then c\<lparr>fMsize := serverMsize\<rparr>
                                     else c)
                           in if \<not> strcmp_eq version P9_VERSION_9P2000_L then
                                (B_NOT_SUPPORTED, c1, w2)
                              else Connect_attach c1 w2 request1 aname))"

subsection \<open>Protocol operations\<close>

text \<open>
  An operation returns its status, or on success the values it stores through its
  out-parameters, together with the client and the world after the call.
\<close>

definition status_of :: "status_t + 'a \<Rightarrow> status_t" where
  "status_of r = (case r of Inl status \<Rightarrow> status | Inr v \<Rightarrow> B_OK)"

definition WalkPath ::
  "'t P9Client \<Rightarrow> 't world \<Rightarrow> uint32 \<Rightarrow> uint32 \<Rightarrow> uint16 \<Rightarrow> uint8 list list
     \<Rightarrow> (status_t + uint16 \<times> P9Qid list) \<times> 't P9Client \<times> 't world" where
  "WalkPath c w fid newfid nwname wnames =
     (case Transaction (\<lambda>tag. BuildWalk tag fid newfid nwname wnames) c w of
        (Inl status, c1, w1) \<Rightarrow> (Inl status, c1, w1)
      | (Inr response, c1, w1) \<Rightarrow>
          (case CheckError w1 response of
             (status, response1) \<Rightarrow>
               if status \<noteq> B_OK then (Inl status, c1, w1)
               else if fType response1 \<noteq> P9_RWALK then (Inl B_ERROR, c1, w1)
               else (ParseWalk nwname response1, c1, w1)))"

text \<open>
  The tokens of a string: the maximal runs of characters other than the delimiter,
  in order (\<open>cur\<close> is the run being read). The components of a path are its tokens
  for \<open>'/'\<close>; \<open>Walk\<close> counts them in a 16-bit counter and then collects that many.
\<close>

fun tokens :: "uint8 \<Rightarrow> uint8 list \<Rightarrow> uint8 list \<Rightarrow> uint8 list list" where
  "tokens delim cur [] = (if cur = [] then [] else [cur])"
| "tokens delim cur (ch # rest) =
     (if ch = delim then (if cur = [] then tokens delim [] rest else cur # tokens delim [] rest)
      else tokens delim (cur @ [ch]) rest)"

definition components :: "uint8 list \<Rightarrow> uint8 list list" where
  "components path = tokens 47 [] (cstring path)"

text \<open>
  \<open>Walk(fid, newfid, path, qid)\<close>; \<open>path\<close> may be \<open>NULL\<close>. The second component of the
  result is the qid stored through \<open>qid\<close> when that pointer is not \<open>NULL\<close>, if one
  is stored.
\<close>

definition Walk ::
  "'t P9Client \<Rightarrow> 't world \<Rightarrow> uint32 \<Rightarrow> uint32 \<Rightarrow> uint8 list option
     \<Rightarrow> (status_t \<times> P9Qid option) \<times> 't P9Client \<times> 't world" where
  "Walk c w fid newfid path =
     (let clone = \<lambda>w'. (case WalkPath c w' fid newfid 0 [] of
                           (r, c1, w1) \<Rightarrow> ((status_of r, None), c1, w1))
      in if path = None \<or> cstring (the path) = [] then clone w
         else case allocate w of
           (ok, w1) \<Rightarrow>
             if \<not> ok then ((B_NO_MEMORY, None), c, w1)
             else let nwname = (word_of_nat (length (components (the path))) :: uint16)
                  in if nwname = 0 then clone w1
                     else case allocate w1 of
                       (ok, w2) \<Rightarrow>
                         if \<not> ok then ((B_NO_MEMORY, None), c, w2)
                         else let wnames = take (unat nwname) (components (the path))
                              in case allocate w2 of
                                (ok, w3) \<Rightarrow>
                                  if \<not> ok then ((B_NO_MEMORY, None), c, w3)
                                  else case WalkPath c w3 fid newfid nwname wnames of
                                    (Inl status, c1, w4) \<Rightarrow> ((status, None), c1, w4)
                                  | (Inr (nwqid, qids), c1, w4) \<Rightarrow>
                                      let qid = (if nwqid > 0 then Some (qids ! (unat nwqid - 1))
                                                 else None)
                                      in if nwqid \<noteq> nwname then ((B_ENTRY_NOT_FOUND, qid), c1, w4)
                                         else ((B_OK, qid), c1, w4))"

definition P9Client_Open ::
  "'t P9Client \<Rightarrow> 't world \<Rightarrow> uint32 \<Rightarrow> uint32
     \<Rightarrow> (status_t + P9Qid \<times> uint32) \<times> 't P9Client \<times> 't world" where
  "P9Client_Open c w fid flags =
     (case Transaction (\<lambda>tag. BuildLopen tag fid flags) c w of
        (Inl status, c1, w1) \<Rightarrow> (Inl status, c1, w1)
      | (Inr response, c1, w1) \<Rightarrow>
          (case CheckError w1 response of
             (status, response1) \<Rightarrow>
               if status \<noteq> B_OK then (Inl status, c1, w1)
               else if fType response1 \<noteq> P9_RLOPEN then (Inl B_ERROR, c1, w1)
               else case ParseLopen response1 of
                 Inl status \<Rightarrow> (Inl status, c1, w1)
               | Inr (respQid, respIounit) \<Rightarrow>
                   (Inr (respQid, if respIounit > 0 then respIounit else fIOUnit c1), c1, w1)))"

definition P9Client_Create ::
  "'t P9Client \<Rightarrow> 't world \<Rightarrow> uint32 \<Rightarrow> uint8 list \<Rightarrow> uint32 \<Rightarrow> uint32 \<Rightarrow> uint32
     \<Rightarrow> (status_t + P9Qid \<times> uint32) \<times> 't P9Client \<times> 't world" where
  "P9Client_Create c w fid name flags mode gid =
     (case Transaction (\<lambda>tag. BuildLcreate tag fid name flags mode gid) c w of
        (Inl status, c1, w1) \<Rightarrow> (Inl status, c1, w1)
      | (Inr response, c1, w1) \<Rightarrow>
          (case CheckError w1 response of
             (status, response1) \<Rightarrow>
               if status \<noteq> B_OK then (Inl status, c1, w1)
               else if fType response1 \<noteq> P9_RLCREATE then (Inl B_ERROR, c1, w1)
               else case ParseLcreate response1 of
                 Inl status \<Rightarrow> (Inl status, c1, w1)
               | Inr (respQid, respIounit) \<Rightarrow>
                   (Inr (respQid, if respIounit > 0 then respIounit else fIOUnit c1), c1, w1)))"

text \<open>
  \<open>Read\<close>: on success the count field of the reply and the bytes that
  \<^verbatim>\<open>memcpy(buffer, data, *count)\<close> copies. When the count field is larger than the
  number of bytes that follow it, the source copies from beyond the frame; the model
  has the bytes of the frame only.
\<close>

definition P9Client_Read ::
  "'t P9Client \<Rightarrow> 't world \<Rightarrow> uint32 \<Rightarrow> uint64 \<Rightarrow> uint32
     \<Rightarrow> (status_t + uint32 \<times> uint8 list) \<times> 't P9Client \<times> 't world" where
  "P9Client_Read c w fid offset count =
     (let toRead = (if count > fIOUnit c then fIOUnit c else count)
      in case Transaction (\<lambda>tag. BuildRead tag fid offset toRead) c w of
        (Inl status, c1, w1) \<Rightarrow> (Inl status, c1, w1)
      | (Inr response, c1, w1) \<Rightarrow>
          (case CheckError w1 response of
             (status, response1) \<Rightarrow>
               if status \<noteq> B_OK then (Inl status, c1, w1)
               else if fType response1 \<noteq> P9_RREAD then (Inl B_ERROR, c1, w1)
               else case ParseRead response1 of
                 Inl status \<Rightarrow> (Inl status, c1, w1)
               | Inr (count1, data) \<Rightarrow> (Inr (count1, take (unat count1) data), c1, w1)))"

definition P9Client_Write ::
  "'t P9Client \<Rightarrow> 't world \<Rightarrow> uint32 \<Rightarrow> uint64 \<Rightarrow> uint8 list \<Rightarrow> uint32
     \<Rightarrow> (status_t + uint32) \<times> 't P9Client \<times> 't world" where
  "P9Client_Write c w fid offset buffer count =
     (let toWrite = (if count > fIOUnit c then fIOUnit c else count)
      in case Transaction (\<lambda>tag. BuildWrite tag fid offset buffer toWrite) c w of
        (Inl status, c1, w1) \<Rightarrow> (Inl status, c1, w1)
      | (Inr response, c1, w1) \<Rightarrow>
          (case CheckError w1 response of
             (status, response1) \<Rightarrow>
               if status \<noteq> B_OK then (Inl status, c1, w1)
               else if fType response1 \<noteq> P9_RWRITE then (Inl B_ERROR, c1, w1)
               else (ParseWrite response1, c1, w1)))"

definition Clunk :: "'t P9Client \<Rightarrow> 't world \<Rightarrow> uint32 \<Rightarrow> status_t \<times> 't P9Client \<times> 't world" where
  "Clunk c w fid =
     (case Transaction (\<lambda>tag. BuildClunk tag fid) c w of
        (Inl status, c1, w1) \<Rightarrow> (status, c1, w1)
      | (Inr response, c1, w1) \<Rightarrow> (fst (CheckError w1 response), c1, w1))"

definition P9Client_Remove :: "'t P9Client \<Rightarrow> 't world \<Rightarrow> uint32 \<Rightarrow> status_t \<times> 't P9Client \<times> 't world" where
  "P9Client_Remove c w fid =
     (case Transaction (\<lambda>tag. BuildRemove tag fid) c w of
        (Inl status, c1, w1) \<Rightarrow> (status, c1, w1)
      | (Inr response, c1, w1) \<Rightarrow> (fst (CheckError w1 response), c1, w1))"

definition GetAttr ::
  "'t P9Client \<Rightarrow> 't world \<Rightarrow> uint32 \<Rightarrow> uint64
     \<Rightarrow> (status_t + P9Attr) \<times> 't P9Client \<times> 't world" where
  "GetAttr c w fid req_mask =
     (case Transaction (\<lambda>tag. BuildGetattr tag fid req_mask) c w of
        (Inl status, c1, w1) \<Rightarrow> (Inl status, c1, w1)
      | (Inr response, c1, w1) \<Rightarrow>
          (case CheckError w1 response of
             (status, response1) \<Rightarrow>
               if status \<noteq> B_OK then (Inl status, c1, w1)
               else if fType response1 \<noteq> P9_RGETATTR then (Inl B_ERROR, c1, w1)
               else (ParseGetattr response1, c1, w1)))"

definition SetAttr ::
  "'t P9Client \<Rightarrow> 't world \<Rightarrow> uint32 \<Rightarrow> uint32 \<Rightarrow> uint32 \<Rightarrow> uint32 \<Rightarrow> uint32 \<Rightarrow> uint64
     \<Rightarrow> uint64 \<Rightarrow> uint64 \<Rightarrow> uint64 \<Rightarrow> uint64 \<Rightarrow> status_t \<times> 't P9Client \<times> 't world" where
  "SetAttr c w fid valid mode uid gid fsize atime_sec atime_nsec mtime_sec mtime_nsec =
     (case Transaction (\<lambda>tag. BuildSetattr tag fid valid mode uid gid fsize atime_sec
                                atime_nsec mtime_sec mtime_nsec) c w of
        (Inl status, c1, w1) \<Rightarrow> (status, c1, w1)
      | (Inr response, c1, w1) \<Rightarrow> (fst (CheckError w1 response), c1, w1))"

definition P9Client_ReadDir ::
  "'t P9Client \<Rightarrow> 't world \<Rightarrow> uint32 \<Rightarrow> uint64 \<Rightarrow> uint32
     \<Rightarrow> (status_t + uint32 \<times> uint8 list) \<times> 't P9Client \<times> 't world" where
  "P9Client_ReadDir c w fid offset count =
     (let toRead = (if count > fIOUnit c then fIOUnit c else count)
      in case Transaction (\<lambda>tag. BuildReaddir tag fid offset toRead) c w of
        (Inl status, c1, w1) \<Rightarrow> (Inl status, c1, w1)
      | (Inr response, c1, w1) \<Rightarrow>
          (case CheckError w1 response of
             (status, response1) \<Rightarrow>
               if status \<noteq> B_OK then (Inl status, c1, w1)
               else if fType response1 \<noteq> P9_RREADDIR then (Inl B_ERROR, c1, w1)
               else case ParseReaddir response1 of
                 Inl status \<Rightarrow> (Inl status, c1, w1)
               | Inr (count1, data) \<Rightarrow> (Inr (count1, take (unat count1) data), c1, w1)))"

text \<open>
  \<open>Mkdir\<close> and \<open>Symlink\<close> parse the reply only when the caller passes a \<open>qid\<close>
  pointer (\<open>want_qid\<close>).
\<close>

definition Mkdir ::
  "'t P9Client \<Rightarrow> 't world \<Rightarrow> uint32 \<Rightarrow> uint8 list \<Rightarrow> uint32 \<Rightarrow> uint32 \<Rightarrow> bool
     \<Rightarrow> (status_t + P9Qid option) \<times> 't P9Client \<times> 't world" where
  "Mkdir c w dfid name mode gid want_qid =
     (case Transaction (\<lambda>tag. BuildMkdir tag dfid name mode gid) c w of
        (Inl status, c1, w1) \<Rightarrow> (Inl status, c1, w1)
      | (Inr response, c1, w1) \<Rightarrow>
          (case CheckError w1 response of
             (status, response1) \<Rightarrow>
               if status \<noteq> B_OK then (Inl status, c1, w1)
               else if fType response1 \<noteq> P9_RMKDIR then (Inl B_ERROR, c1, w1)
               else if want_qid then
                 (case ParseMkdir response1 of
                    Inl status \<Rightarrow> (Inl status, c1, w1)
                  | Inr qid \<Rightarrow> (Inr (Some qid), c1, w1))
               else (Inr None, c1, w1)))"

definition Unlink ::
  "'t P9Client \<Rightarrow> 't world \<Rightarrow> uint32 \<Rightarrow> uint8 list \<Rightarrow> uint32 \<Rightarrow> status_t \<times> 't P9Client \<times> 't world" where
  "Unlink c w dfid name flags =
     (case Transaction (\<lambda>tag. BuildUnlinkat tag dfid name flags) c w of
        (Inl status, c1, w1) \<Rightarrow> (status, c1, w1)
      | (Inr response, c1, w1) \<Rightarrow> (fst (CheckError w1 response), c1, w1))"

definition P9Client_Rename ::
  "'t P9Client \<Rightarrow> 't world \<Rightarrow> uint32 \<Rightarrow> uint8 list \<Rightarrow> uint32 \<Rightarrow> uint8 list
     \<Rightarrow> status_t \<times> 't P9Client \<times> 't world" where
  "P9Client_Rename c w olddirfid oldname newdirfid newname =
     (case Transaction (\<lambda>tag. BuildRenameat tag olddirfid oldname newdirfid newname) c w of
        (Inl status, c1, w1) \<Rightarrow> (status, c1, w1)
      | (Inr response, c1, w1) \<Rightarrow> (fst (CheckError w1 response), c1, w1))"

definition StatFS ::
  "'t P9Client \<Rightarrow> 't world \<Rightarrow> uint32 \<Rightarrow> (status_t + P9StatFS) \<times> 't P9Client \<times> 't world" where
  "StatFS c w fid =
     (case Transaction (\<lambda>tag. BuildStatfs tag fid) c w of
        (Inl status, c1, w1) \<Rightarrow> (Inl status, c1, w1)
      | (Inr response, c1, w1) \<Rightarrow>
          (case CheckError w1 response of
             (status, response1) \<Rightarrow>
               if status \<noteq> B_OK then (Inl status, c1, w1)
               else if fType response1 \<noteq> P9_RSTATFS then (Inl B_ERROR, c1, w1)
               else (ParseStatfs response1, c1, w1)))"

definition FSync :: "'t P9Client \<Rightarrow> 't world \<Rightarrow> uint32 \<Rightarrow> bool \<Rightarrow> status_t \<times> 't P9Client \<times> 't world" where
  "FSync c w fid dataOnly =
     (case Transaction (\<lambda>tag. BuildFsync tag fid (if dataOnly then 1 else 0)) c w of
        (Inl status, c1, w1) \<Rightarrow> (status, c1, w1)
      | (Inr response, c1, w1) \<Rightarrow> (fst (CheckError w1 response), c1, w1))"

definition P9Client_ReadLink ::
  "'t P9Client \<Rightarrow> 't world \<Rightarrow> uint32 \<Rightarrow> nat
     \<Rightarrow> (status_t + uint8 list) \<times> 't P9Client \<times> 't world" where
  "P9Client_ReadLink c w fid targetSize =
     (case Transaction (\<lambda>tag. BuildReadlink tag fid) c w of
        (Inl status, c1, w1) \<Rightarrow> (Inl status, c1, w1)
      | (Inr response, c1, w1) \<Rightarrow>
          (case CheckError w1 response of
             (status, response1) \<Rightarrow>
               if status \<noteq> B_OK then (Inl status, c1, w1)
               else if fType response1 \<noteq> P9_RREADLINK then (Inl B_ERROR, c1, w1)
               else (ParseReadlink targetSize response1, c1, w1)))"

definition Symlink ::
  "'t P9Client \<Rightarrow> 't world \<Rightarrow> uint32 \<Rightarrow> uint8 list \<Rightarrow> uint8 list \<Rightarrow> uint32 \<Rightarrow> bool
     \<Rightarrow> (status_t + P9Qid option) \<times> 't P9Client \<times> 't world" where
  "Symlink c w dfid name target gid want_qid =
     (case Transaction (\<lambda>tag. BuildSymlink tag dfid name target gid) c w of
        (Inl status, c1, w1) \<Rightarrow> (Inl status, c1, w1)
      | (Inr response, c1, w1) \<Rightarrow>
          (case CheckError w1 response of
             (status, response1) \<Rightarrow>
               if status \<noteq> B_OK then (Inl status, c1, w1)
               else if fType response1 \<noteq> P9_RSYMLINK then (Inl B_ERROR, c1, w1)
               else if want_qid then
                 (case ParseSymlink response1 of
                    Inl status \<Rightarrow> (Inl status, c1, w1)
                  | Inr qid \<Rightarrow> (Inr (Some qid), c1, w1))
               else (Inr None, c1, w1)))"

definition Link ::
  "'t P9Client \<Rightarrow> 't world \<Rightarrow> uint32 \<Rightarrow> uint32 \<Rightarrow> uint8 list \<Rightarrow> status_t \<times> 't P9Client \<times> 't world" where
  "Link c w dfid fid name =
     (case Transaction (\<lambda>tag. BuildLink tag dfid fid name) c w of
        (Inl status, c1, w1) \<Rightarrow> (status, c1, w1)
      | (Inr response, c1, w1) \<Rightarrow> (fst (CheckError w1 response), c1, w1))"

definition Disconnect :: "'t P9Client \<Rightarrow> 't world \<Rightarrow> 't P9Client \<times> 't world" where
  "Disconnect c w =
     (if \<not> fConnected c then (c, w)
      else case Clunk c w (fRootFid c) of
        (status, c1, w1) \<Rightarrow>
          (c1\<lparr>fFidPool := FidPool_Release (fFidPool c1) (fRootFid c1), fConnected := False\<rparr>, w1))"

section \<open>Inode (Inode.cpp)\<close>

text \<open>
  Constants of the system headers that the file system is compiled against:
  \<open>sys/stat.h\<close> (file type bits), \<open>fcntl.h\<close> (open modes), \<open>NodeMonitor.h\<close> (stat
  mask) and \<open>fs_interface.h\<close> (mount flag). \<open>mode_t\<close> and \<open>int\<close> are 32 bits,
  \<open>size_t\<close> and \<open>off_t\<close> are 64 bits.
\<close>

definition S_IFMT :: uint32 where "S_IFMT = 0xF000"
definition S_IFDIR :: uint32 where "S_IFDIR = 0x4000"
definition S_IFREG :: uint32 where "S_IFREG = 0x8000"
definition S_IFLNK :: uint32 where "S_IFLNK = 0xA000"

definition O_ACCMODE :: uint32 where "O_ACCMODE = 3"
definition O_RDONLY :: uint32 where "O_RDONLY = 0"
definition O_WRONLY :: uint32 where "O_WRONLY = 1"
definition O_RDWR :: uint32 where "O_RDWR = 2"
definition O_EXCL :: uint32 where "O_EXCL = 0x0100"
definition O_CREAT :: uint32 where "O_CREAT = 0x0200"
definition O_TRUNC :: uint32 where "O_TRUNC = 0x0400"
definition O_APPEND :: uint32 where "O_APPEND = 0x0800"

definition B_STAT_MODE :: uint32 where "B_STAT_MODE = 0x0001"
definition B_STAT_UID :: uint32 where "B_STAT_UID = 0x0002"
definition B_STAT_GID :: uint32 where "B_STAT_GID = 0x0004"
definition B_STAT_SIZE :: uint32 where "B_STAT_SIZE = 0x0008"
definition B_STAT_ACCESS_TIME :: uint32 where "B_STAT_ACCESS_TIME = 0x0010"
definition B_STAT_MODIFICATION_TIME :: uint32 where "B_STAT_MODIFICATION_TIME = 0x0020"

definition B_MOUNT_READ_ONLY :: uint32 where "B_MOUNT_READ_ONLY = 1"

text \<open>9p.h: qid types, open flags and the attribute masks.\<close>

definition P9_QTDIR :: uint8 where "P9_QTDIR = 0x80"
definition P9_QTSYMLINK :: uint8 where "P9_QTSYMLINK = 0x02"

definition P9_OREAD :: uint32 where "P9_OREAD = 0"
definition P9_OWRITE :: uint32 where "P9_OWRITE = 1"
definition P9_ORDWR :: uint32 where "P9_ORDWR = 2"
definition P9_OCREATE :: uint32 where "P9_OCREATE = 0x40"
definition P9_OEXCL :: uint32 where "P9_OEXCL = 0x80"
definition P9_OTRUNC :: uint32 where "P9_OTRUNC = 0x200"
definition P9_OAPPEND :: uint32 where "P9_OAPPEND = 0x400"

definition P9_GETATTR_BASIC :: uint64 where "P9_GETATTR_BASIC = 0x7ff"

definition P9_SETATTR_MODE :: uint32 where "P9_SETATTR_MODE = 0x1"
definition P9_SETATTR_UID :: uint32 where "P9_SETATTR_UID = 0x2"
definition P9_SETATTR_GID :: uint32 where "P9_SETATTR_GID = 0x4"
definition P9_SETATTR_SIZE :: uint32 where "P9_SETATTR_SIZE = 0x8"
definition P9_SETATTR_ATIME :: uint32 where "P9_SETATTR_ATIME = 0x10"
definition P9_SETATTR_MTIME :: uint32 where "P9_SETATTR_MTIME = 0x20"
definition P9_SETATTR_ATIME_SET :: uint32 where "P9_SETATTR_ATIME_SET = 0x80"
definition P9_SETATTR_MTIME_SET :: uint32 where "P9_SETATTR_MTIME_SET = 0x100"

text \<open>kernel_interface.cpp: the conversions between Haiku and 9P values.\<close>

definition haiku_to_p9_open_flags :: "uint32 \<Rightarrow> uint32" where
  "haiku_to_p9_open_flags flags =
     (let p9flags = (if flags AND O_ACCMODE = O_RDONLY then P9_OREAD
                     else if flags AND O_ACCMODE = O_WRONLY then P9_OWRITE
                     else if flags AND O_ACCMODE = O_RDWR then P9_ORDWR
                     else 0);
          p9flags = (if flags AND O_CREAT \<noteq> 0 then p9flags OR P9_OCREATE else p9flags);
          p9flags = (if flags AND O_EXCL \<noteq> 0 then p9flags OR P9_OEXCL else p9flags);
          p9flags = (if flags AND O_TRUNC \<noteq> 0 then p9flags OR P9_OTRUNC else p9flags);
          p9flags = (if flags AND O_APPEND \<noteq> 0 then p9flags OR P9_OAPPEND else p9flags)
      in p9flags)"

definition p9_mode_to_haiku :: "uint32 \<Rightarrow> uint32" where
  "p9_mode_to_haiku mode = mode"

definition haiku_mode_to_p9 :: "uint32 \<Rightarrow> uint32" where
  "haiku_mode_to_p9 mode = mode"

text \<open>
  A volume owns the client; an inode refers to its volume, which the operations
  below take as an argument. \<open>fRootInode\<close> is a pointer to an inode that the kernel
  holds; it is represented by the id of that inode.
\<close>

record 't Volume =
  fClient :: "'t P9Client"
  vol_fTransport :: "'t P9Transport option"
  vol_fRootFid :: uint32
  fRootInode :: "uint64 option"
  fMountTag :: "uint8 list option"
  fAname :: "uint8 list option"
  fReadOnly :: bool

record Inode =
  fID :: uint64
  fFid :: uint32
  fQid :: P9Qid
  fMode :: uint32
  fSize :: uint64
  fStatValid :: bool

record FileCookie =
  cookie_fid :: uint32
  cookie_openMode :: uint32
  cookie_position :: uint64

record stat =
  st_mode :: uint32
  st_uid :: uint32
  st_gid :: uint32
  st_size :: uint64
  st_atim_sec :: uint64
  st_atim_nsec :: uint64
  st_mtim_sec :: uint64
  st_mtim_nsec :: uint64

definition Volume_new :: "'t Volume" where
  "Volume_new =
     \<lparr>fClient = P9Client_new, vol_fTransport = None, vol_fRootFid = P9_NOFID,
      fRootInode = None, fMountTag = None, fAname = None, fReadOnly = False\<rparr>"

definition Inode_new :: "uint64 \<Rightarrow> uint32 \<Rightarrow> P9Qid \<Rightarrow> Inode" where
  "Inode_new ino fid qid =
     \<lparr>fID = ino, fFid = fid, fQid = qid,
      fMode = (if qid_type qid AND P9_QTDIR \<noteq> 0 then S_IFDIR OR 0x1ED
               else if qid_type qid AND P9_QTSYMLINK \<noteq> 0 then S_IFLNK OR 0x1FF
               else S_IFREG OR 0x1A4),
      fSize = 0, fStatValid = False\<rparr>"

definition IsDirectory :: "Inode \<Rightarrow> bool" where
  "IsDirectory i \<longleftrightarrow> fMode i AND S_IFMT = S_IFDIR"

definition IsSymlink :: "Inode \<Rightarrow> bool" where
  "IsSymlink i \<longleftrightarrow> fMode i AND S_IFMT = S_IFLNK"

definition QidToIno :: "P9Qid \<Rightarrow> uint64" where
  "QidToIno qid = qid_path qid"

text \<open>
  (The permission bits \<open>0755\<close>, \<open>0777\<close> and \<open>0644\<close> of the constructor are written
  in hexadecimal above.) The destructor clunks the inode's FID unless it is the root FID or
  \<open>NOFID\<close>.
\<close>

definition Inode_delete :: "Inode \<Rightarrow> 't Volume \<Rightarrow> 't world \<Rightarrow> 't Volume \<times> 't world" where
  "Inode_delete i v w =
     (if fFid i \<noteq> vol_fRootFid v \<and> fFid i \<noteq> P9_NOFID then
        (case Clunk (fClient v) w (fFid i) of (status, c1, w1) \<Rightarrow> (v\<lparr>fClient := c1\<rparr>, w1))
      else (v, w))"

definition UpdateStat :: "Inode \<Rightarrow> 't Volume \<Rightarrow> 't world \<Rightarrow> (status_t \<times> Inode) \<times> 't Volume \<times> 't world" where
  "UpdateStat i v w =
     (case GetAttr (fClient v) w (fFid i) P9_GETATTR_BASIC of
        (Inl status, c1, w1) \<Rightarrow> ((status, i), v\<lparr>fClient := c1\<rparr>, w1)
      | (Inr attr, c1, w1) \<Rightarrow>
          ((B_OK, i\<lparr>fMode := p9_mode_to_haiku (attr_mode attr), fSize := attr_size attr,
                     fStatValid := True\<rparr>),
           v\<lparr>fClient := c1\<rparr>, w1))"

definition Inode_Init :: "Inode \<Rightarrow> 't Volume \<Rightarrow> 't world \<Rightarrow> (status_t \<times> Inode) \<times> 't Volume \<times> 't world" where
  "Inode_Init i v w = UpdateStat i v w"

text \<open>
  The loop of \<open>Inode::Read\<close>. The result is the status returned from inside the loop,
  or the final \<open>totalRead\<close>, together with the bytes copied to the caller's buffer so
  far. The transport decides whether the loop ends, so the loop is a partial function:
  \<open>None\<close> stands for a run that does not return.
\<close>

partial_function (option) Inode_Read_loop ::
  "'t P9Client \<Rightarrow> 't world \<Rightarrow> uint32 \<Rightarrow> uint64 \<Rightarrow> uint64 \<Rightarrow> uint64 \<Rightarrow> uint8 list
     \<Rightarrow> (((status_t + uint64) \<times> uint8 list) \<times> 't P9Client \<times> 't world) option" where
  "Inode_Read_loop c w fid pos remaining totalRead dest =
     (if remaining > 0 then
        (case P9Client_Read c w fid (pos + totalRead)
                (if remaining > ucast (fIOUnit c) then fIOUnit c else ucast remaining) of
           (Inl status, c1, w1) \<Rightarrow> Some ((Inl status, dest), c1, w1)
         | (Inr (toRead, data), c1, w1) \<Rightarrow>
             if toRead = 0 then Some ((Inr totalRead, dest), c1, w1)
             else Inode_Read_loop c1 w1 fid pos (remaining - ucast toRead)
                    (totalRead + ucast toRead) (dest @ data))
      else Some ((Inr totalRead, dest), c, w))"

text \<open>
  \<open>Inode::Read(cookie, pos, buffer, _length)\<close>: \<open>len\<close> is the value of \<open>*_length\<close> on
  entry; the result \<open>Inr n\<close> is \<open>B_OK\<close> with \<open>*_length = n\<close>, the result \<open>Inl status\<close>
  leaves \<open>*_length\<close> as it was.
\<close>

definition Inode_Read ::
  "'t Volume \<Rightarrow> 't world \<Rightarrow> FileCookie \<Rightarrow> uint64 \<Rightarrow> uint64
     \<Rightarrow> (((status_t + uint64) \<times> uint8 list) \<times> 't Volume \<times> 't world) option" where
  "Inode_Read v w cookie pos len =
     (if sint pos < 0 then Some ((Inl B_BAD_VALUE, []), v, w)
      else case Inode_Read_loop (fClient v) w (cookie_fid cookie) pos len 0 [] of
        None \<Rightarrow> None
      | Some (r, c1, w1) \<Rightarrow> Some (r, v\<lparr>fClient := c1\<rparr>, w1))"

partial_function (option) Inode_Write_loop ::
  "'t P9Client \<Rightarrow> 't world \<Rightarrow> uint32 \<Rightarrow> uint64 \<Rightarrow> uint8 list \<Rightarrow> uint64 \<Rightarrow> uint64
     \<Rightarrow> ((status_t + uint64) \<times> 't P9Client \<times> 't world) option" where
  "Inode_Write_loop c w fid pos src remaining totalWritten =
     (if remaining > 0 then
        (case P9Client_Write c w fid (pos + totalWritten) src
                (if remaining > ucast (fIOUnit c) then fIOUnit c else ucast remaining) of
           (Inl status, c1, w1) \<Rightarrow> Some (Inl status, c1, w1)
         | (Inr toWrite, c1, w1) \<Rightarrow>
             if toWrite = 0 then Some (Inr totalWritten, c1, w1)
             else Inode_Write_loop c1 w1 fid pos (drop (unat toWrite) src)
                    (remaining - ucast toWrite) (totalWritten + ucast toWrite))
      else Some (Inr totalWritten, c, w))"

definition Inode_Write ::
  "Inode \<Rightarrow> 't Volume \<Rightarrow> 't world \<Rightarrow> FileCookie \<Rightarrow> uint64 \<Rightarrow> uint8 list \<Rightarrow> uint64
     \<Rightarrow> ((status_t + uint64) \<times> Inode \<times> 't Volume \<times> 't world) option" where
  "Inode_Write i v w cookie pos buffer len =
     (if sint pos < 0 then Some (Inl B_BAD_VALUE, i, v, w)
      else if fReadOnly v then Some (Inl B_READ_ONLY_DEVICE, i, v, w)
      else case Inode_Write_loop (fClient v) w (cookie_fid cookie) pos buffer len 0 of
        None \<Rightarrow> None
      | Some (Inl status, c1, w1) \<Rightarrow> Some (Inl status, i, v\<lparr>fClient := c1\<rparr>, w1)
      | Some (Inr totalWritten, c1, w1) \<Rightarrow>
          Some (Inr totalWritten, i\<lparr>fStatValid := False\<rparr>, v\<lparr>fClient := c1\<rparr>, w1))"

definition WriteStat ::
  "Inode \<Rightarrow> 't Volume \<Rightarrow> 't world \<Rightarrow> stat \<Rightarrow> uint32 \<Rightarrow> status_t \<times> Inode \<times> 't Volume \<times> 't world" where
  "WriteStat i v w st statMask =
     (if fReadOnly v then (B_READ_ONLY_DEVICE, i, v, w)
      else
        let has = (\<lambda>bits. statMask AND bits \<noteq> 0);
            valid = (if has B_STAT_MODE then P9_SETATTR_MODE else 0)
                 OR (if has B_STAT_UID then P9_SETATTR_UID else 0)
                 OR (if has B_STAT_GID then P9_SETATTR_GID else 0)
                 OR (if has B_STAT_SIZE then P9_SETATTR_SIZE else 0)
                 OR (if has B_STAT_ACCESS_TIME then P9_SETATTR_ATIME OR P9_SETATTR_ATIME_SET
                     else 0)
                 OR (if has B_STAT_MODIFICATION_TIME
                     then P9_SETATTR_MTIME OR P9_SETATTR_MTIME_SET else 0);
            mode = (if has B_STAT_MODE then haiku_mode_to_p9 (st_mode st) else 0);
            uid = (if has B_STAT_UID then st_uid st else 0);
            gid = (if has B_STAT_GID then st_gid st else 0);
            fsize = (if has B_STAT_SIZE then st_size st else 0);
            atime_sec = (if has B_STAT_ACCESS_TIME then st_atim_sec st else 0);
            atime_nsec = (if has B_STAT_ACCESS_TIME then st_atim_nsec st else 0);
            mtime_sec = (if has B_STAT_MODIFICATION_TIME then st_mtim_sec st else 0);
            mtime_nsec = (if has B_STAT_MODIFICATION_TIME then st_mtim_nsec st else 0)
        in case SetAttr (fClient v) w (fFid i) valid mode uid gid fsize atime_sec atime_nsec
                  mtime_sec mtime_nsec of
             (status, c1, w1) \<Rightarrow>
               (status, if status = B_OK then i\<lparr>fStatValid := False\<rparr> else i,
                v\<lparr>fClient := c1\<rparr>, w1))"

text \<open>
  The clean-up after a failure in \<open>Create\<close>: \<^verbatim>\<open>Clunk(newFid); ReleaseFid(newFid);\<close>.
\<close>

definition clunk_and_release :: "'t P9Client \<Rightarrow> 't world \<Rightarrow> uint32 \<Rightarrow> 't P9Client \<times> 't world" where
  "clunk_and_release c w fid =
     (case Clunk c w fid of (status, c1, w1) \<Rightarrow> (ReleaseFid c1 fid, w1))"

definition publish_vnode :: "'t world \<Rightarrow> status_t \<times> 't world" where
  "publish_vnode w = (case vfs w of [] \<Rightarrow> (B_OK, w) | r # rest \<Rightarrow> (r, w\<lparr>vfs := rest\<rparr>))"

definition get_vnode :: "'t world \<Rightarrow> status_t \<times> 't world" where
  "get_vnode w =
     (case vfs w of [] \<Rightarrow> (B_ENTRY_NOT_FOUND, w) | r # rest \<Rightarrow> (r, w\<lparr>vfs := rest\<rparr>))"

text \<open>
  \<open>Inode::Create\<close>. On success the result carries the cookie and the new id. The
  inode constructed for the new file has the FID \<open>P9_NOFID\<close>, so deleting it clunks
  nothing, and \<open>put_vnode\<close> (which deletes it through \<open>fs_put_vnode\<close>) leaves the
  client as it is.
\<close>

definition Inode_Create ::
  "Inode \<Rightarrow> 't Volume \<Rightarrow> 't world \<Rightarrow> uint8 list \<Rightarrow> uint32 \<Rightarrow> uint32
     \<Rightarrow> (status_t + FileCookie \<times> uint64) \<times> 't Volume \<times> 't world" where
  "Inode_Create i v w name openMode perms =
     (if \<not> IsDirectory i then (Inl B_NOT_A_DIRECTORY, v, w)
      else if fReadOnly v then (Inl B_READ_ONLY_DEVICE, v, w)
      else case AllocateFid (fClient v) of
        (newFid, c1) \<Rightarrow>
          if newFid = P9_NOFID then (Inl B_NO_MEMORY, v\<lparr>fClient := c1\<rparr>, w)
          else case Walk c1 w (fFid i) newFid None of
            ((status, q), c2, w2) \<Rightarrow>
              if status \<noteq> B_OK then (Inl status, v\<lparr>fClient := ReleaseFid c2 newFid\<rparr>, w2)
              else
                let flags = haiku_to_p9_open_flags openMode;
                    mode = haiku_mode_to_p9 (S_IFREG OR perms);
                    failed = (\<lambda>status c' w'.
                      case clunk_and_release c' w' newFid of
                        (c'', w'') \<Rightarrow> (Inl status, v\<lparr>fClient := c''\<rparr>, w''))
                in case P9Client_Create c2 w2 newFid name flags mode 0 of
                  (Inl status, c3, w3) \<Rightarrow> failed status c3 w3
                | (Inr (qid, iounit), c3, w3) \<Rightarrow>
                    let ino = QidToIno qid
                    in case allocate w3 of
                      (ok, w4) \<Rightarrow>
                        if \<not> ok then failed B_NO_MEMORY c3 w4
                        else case Inode_Init (Inode_new ino P9_NOFID qid) (v\<lparr>fClient := c3\<rparr>) w4 of
                          ((status, inode), v5, w5) \<Rightarrow>
                            if status \<noteq> B_OK then failed status (fClient v5) w5
                            else case publish_vnode w5 of
                              (status, w6) \<Rightarrow>
                                if status \<noteq> B_OK then failed status (fClient v5) w6
                                else case allocate w6 of
                                  (ok, w7) \<Rightarrow>
                                    if \<not> ok then (Inl B_NO_MEMORY, v5, w7)
                                    else (Inr (\<lparr>cookie_fid = newFid,
                                                cookie_openMode = openMode,
                                                cookie_position = 0\<rparr>, ino),
                                          v5, w7))"

definition Inode_Remove ::
  "Inode \<Rightarrow> 't Volume \<Rightarrow> 't world \<Rightarrow> uint8 list \<Rightarrow> status_t \<times> 't Volume \<times> 't world" where
  "Inode_Remove i v w name =
     (if \<not> IsDirectory i then (B_NOT_A_DIRECTORY, v, w)
      else if fReadOnly v then (B_READ_ONLY_DEVICE, v, w)
      else case Unlink (fClient v) w (fFid i) name 0 of
        (status, c1, w1) \<Rightarrow> (status, v\<lparr>fClient := c1\<rparr>, w1))"

definition Inode_Rename ::
  "Inode \<Rightarrow> 't Volume \<Rightarrow> 't world \<Rightarrow> uint8 list \<Rightarrow> Inode \<Rightarrow> uint8 list
     \<Rightarrow> status_t \<times> 't Volume \<times> 't world" where
  "Inode_Rename i v w fromName toDir toName =
     (if \<not> IsDirectory i \<or> \<not> IsDirectory toDir then (B_NOT_A_DIRECTORY, v, w)
      else if fReadOnly v then (B_READ_ONLY_DEVICE, v, w)
      else case P9Client_Rename (fClient v) w (fFid i) fromName (fFid toDir) toName of
        (status, c1, w1) \<Rightarrow> (status, v\<lparr>fClient := c1\<rparr>, w1))"

definition CreateSymlink ::
  "Inode \<Rightarrow> 't Volume \<Rightarrow> 't world \<Rightarrow> uint8 list \<Rightarrow> uint8 list \<Rightarrow> status_t \<times> 't Volume \<times> 't world" where
  "CreateSymlink i v w name target =
     (if \<not> IsDirectory i then (B_NOT_A_DIRECTORY, v, w)
      else if fReadOnly v then (B_READ_ONLY_DEVICE, v, w)
      else case Symlink (fClient v) w (fFid i) name target 0 False of
        (r, c1, w1) \<Rightarrow> (status_of r, v\<lparr>fClient := c1\<rparr>, w1))"

definition CreateDir ::
  "Inode \<Rightarrow> 't Volume \<Rightarrow> 't world \<Rightarrow> uint8 list \<Rightarrow> uint32 \<Rightarrow> status_t \<times> 't Volume \<times> 't world" where
  "CreateDir i v w name perms =
     (if \<not> IsDirectory i then (B_NOT_A_DIRECTORY, v, w)
      else if fReadOnly v then (B_READ_ONLY_DEVICE, v, w)
      else case Mkdir (fClient v) w (fFid i) name (haiku_mode_to_p9 (S_IFDIR OR perms)) 0 False of
        (r, c1, w1) \<Rightarrow> (status_of r, v\<lparr>fClient := c1\<rparr>, w1))"

definition RemoveDir ::
  "Inode \<Rightarrow> 't Volume \<Rightarrow> 't world \<Rightarrow> uint8 list \<Rightarrow> status_t \<times> 't Volume \<times> 't world" where
  "RemoveDir i v w name =
     (if \<not> IsDirectory i then (B_NOT_A_DIRECTORY, v, w)
      else if fReadOnly v then (B_READ_ONLY_DEVICE, v, w)
      else case Unlink (fClient v) w (fFid i) name 0x200 of
        (status, c1, w1) \<Rightarrow> (status, v\<lparr>fClient := c1\<rparr>, w1))"

text \<open>
  \<open>WalkToChild\<close>: on success the child's FID and the local \<open>qid\<close>, which \<open>Walk\<close> has
  assigned when the walk had at least one component.
\<close>

definition WalkToChild ::
  "Inode \<Rightarrow> 't Volume \<Rightarrow> 't world \<Rightarrow> uint8 list
     \<Rightarrow> (status_t + uint32 \<times> P9Qid) \<times> 't Volume \<times> 't world" where
  "WalkToChild i v w name =
     (case AllocateFid (fClient v) of
        (childFid, c1) \<Rightarrow>
          if childFid = P9_NOFID then (Inl B_NO_MEMORY, v\<lparr>fClient := c1\<rparr>, w)
          else case Walk c1 w (fFid i) childFid (Some name) of
            ((status, q), c2, w2) \<Rightarrow>
              if status \<noteq> B_OK then (Inl status, v\<lparr>fClient := ReleaseFid c2 childFid\<rparr>, w2)
              else (Inr (childFid, case q of None \<Rightarrow> junk_qid w2 | Some qid \<Rightarrow> qid),
                    v\<lparr>fClient := c2\<rparr>, w2))"

section \<open>Volume (Volume.cpp)\<close>

text \<open>
  \<open>_ParseArgs\<close>: the options are the tokens of \<open>args\<close> for \<open>','\<close> (\<open>strtok_r\<close>); an
  option is cut at its first \<open>'='\<close>. \<open>parse_options\<close> is the loop over the options.
\<close>

definition option_key :: "uint8 list \<Rightarrow> uint8 list" where
  "option_key opt = takeWhile (\<lambda>ch. ch \<noteq> 61) opt"

definition option_value :: "uint8 list \<Rightarrow> uint8 list option" where
  "option_value opt = (if 61 \<in> set opt then Some (tl (dropWhile (\<lambda>ch. ch \<noteq> 61) opt)) else None)"

definition strdup :: "uint8 list option \<Rightarrow> 't world \<Rightarrow> uint8 list option \<times> 't world" where
  "strdup val w =
     (case val of
        None \<Rightarrow> (None, w)
      | Some str \<Rightarrow> (case allocate w of (ok, w1) \<Rightarrow> (if ok then Some str else None, w1)))"

definition P9_MOUNT_OPT_TAG :: "uint8 list" where "P9_MOUNT_OPT_TAG = bytes_of ''tag''"
definition P9_MOUNT_OPT_ANAME :: "uint8 list" where "P9_MOUNT_OPT_ANAME = bytes_of ''aname''"
definition P9_MOUNT_OPT_MSIZE :: "uint8 list" where "P9_MOUNT_OPT_MSIZE = bytes_of ''msize''"

fun parse_options :: "uint8 list list \<Rightarrow> 't Volume \<Rightarrow> 't world \<Rightarrow> 't Volume \<times> 't world" where
  "parse_options [] v w = (v, w)"
| "parse_options (opt # opts) v w =
     (if option_key opt = P9_MOUNT_OPT_TAG then
        (case strdup (option_value opt) w of
           (val, w1) \<Rightarrow> parse_options opts (v\<lparr>fMountTag := val\<rparr>) w1)
      else if option_key opt = P9_MOUNT_OPT_ANAME then
        (case strdup (option_value opt) w of
           (val, w1) \<Rightarrow> parse_options opts (v\<lparr>fAname := val\<rparr>) w1)
      else parse_options opts v w)"

definition ParseArgs :: "uint8 list option \<Rightarrow> 't Volume \<Rightarrow> 't world \<Rightarrow> status_t \<times> 't Volume \<times> 't world" where
  "ParseArgs args v w =
     (case args of
        None \<Rightarrow> (B_OK, v, w)
      | Some str \<Rightarrow>
          (case allocate w of
             (ok, w1) \<Rightarrow>
               if \<not> ok then (B_NO_MEMORY, v, w1)
               else case parse_options (tokens 44 [] (cstring str)) v w1 of
                 (v2, w2) \<Rightarrow> (B_OK, v2, w2)))"

text \<open>\<open>virtio_9p_find_transport\<close>: the first slot in use whose tag compares equal.\<close>

fun virtio_9p_find_transport ::
  "(uint8 list \<times> 't P9Transport) list \<Rightarrow> uint8 list \<Rightarrow> 't P9Transport option" where
  "virtio_9p_find_transport [] mountTag = None"
| "virtio_9p_find_transport ((entryTag, tr) # slots) mountTag =
     (if strcmp_eq entryTag mountTag then Some tr
      else virtio_9p_find_transport slots mountTag)"

definition FindTransport :: "'t Volume \<Rightarrow> 't world \<Rightarrow> status_t \<times> 't Volume" where
  "FindTransport v w =
     (case fMountTag v of
        None \<Rightarrow> (B_BAD_VALUE, v)
      | Some mountTag \<Rightarrow>
          (let v1 = v\<lparr>vol_fTransport := virtio_9p_find_transport (registry w) mountTag\<rparr>
           in if vol_fTransport v1 = None then (B_DEVICE_NOT_FOUND, v1) else (B_OK, v1)))"

text \<open>
  \<open>GetInode(fid, qid, _inode)\<close>: on success the id of the inode stored in \<open>*_inode\<close>.
\<close>

definition GetInode ::
  "'t Volume \<Rightarrow> 't world \<Rightarrow> uint32 \<Rightarrow> P9Qid \<Rightarrow> (status_t + uint64) \<times> 't Volume \<times> 't world" where
  "GetInode v w fid qid =
     (let ino = QidToIno qid
      in case get_vnode w of
        (status, w1) \<Rightarrow>
          if status = B_OK then
            (if fid \<noteq> vol_fRootFid v then
               (case Clunk (fClient v) w1 fid of
                  (status, c2, w2) \<Rightarrow> (Inr ino, v\<lparr>fClient := c2\<rparr>, w2))
             else (Inr ino, v, w1))
          else case allocate w1 of
            (ok, w2) \<Rightarrow>
              if \<not> ok then
                (if fid \<noteq> vol_fRootFid v then
                   (case Clunk (fClient v) w2 fid of
                      (status, c3, w3) \<Rightarrow> (Inl B_NO_MEMORY, v\<lparr>fClient := c3\<rparr>, w3))
                 else (Inl B_NO_MEMORY, v, w2))
              else case Inode_Init (Inode_new ino fid qid) v w2 of
                ((status, inode), v3, w3) \<Rightarrow>
                  if status \<noteq> B_OK then
                    (case Inode_delete inode v3 w3 of (v4, w4) \<Rightarrow> (Inl status, v4, w4))
                  else case publish_vnode w3 of
                    (status, w4) \<Rightarrow>
                      if status \<noteq> B_OK then
                        (case Inode_delete inode v3 w4 of (v5, w5) \<Rightarrow> (Inl status, v5, w5))
                      else (Inr ino, v3, w4))"

text \<open>
  \<open>Mount(device, flags, args, rootID)\<close>; on success the root id. The client is
  initialised by \<open>fClient.Init(fTransport)\<close>, that is with the default \<open>msize\<close>.
\<close>

definition Mount ::
  "'t Volume \<Rightarrow> 't world \<Rightarrow> uint32 \<Rightarrow> uint8 list option
     \<Rightarrow> (status_t + uint64) \<times> 't Volume \<times> 't world" where
  "Mount v w flags args =
     (case ParseArgs args v w of
        (status, v1, w1) \<Rightarrow>
          if status \<noteq> B_OK then (Inl status, v1, w1)
          else
            let v2 = v1\<lparr>fReadOnly := (flags AND B_MOUNT_READ_ONLY \<noteq> 0)\<rparr>
            in case FindTransport v2 w1 of
              (status, v3) \<Rightarrow>
                if status \<noteq> B_OK then (Inl status, v3, w1)
                else case P9Client_Init (vol_fTransport v3) P9_DEFAULT_MSIZE (fClient v3) w1 of
                  (status, c4, w4) \<Rightarrow>
                    let v4 = v3\<lparr>fClient := c4\<rparr>
                    in if status \<noteq> B_OK then (Inl status, v4, w4)
                       else case Connect c4 w4 (case fAname v4 of None \<Rightarrow> [] | Some a \<Rightarrow> a) of
                         (status, c5, w5) \<Rightarrow>
                           let v5 = v4\<lparr>fClient := c5\<rparr>
                           in if status \<noteq> B_OK then (Inl status, v5, w5)
                              else
                                let v6 = v5\<lparr>vol_fRootFid := fRootFid c5\<rparr>
                                in case GetAttr c5 w5 (vol_fRootFid v6) P9_GETATTR_BASIC of
                                  (Inl status, c7, w7) \<Rightarrow>
                                    (case Disconnect c7 w7 of
                                       (c8, w8) \<Rightarrow> (Inl status, v6\<lparr>fClient := c8\<rparr>, w8))
                                | (Inr attr, c7, w7) \<Rightarrow>
                                    (case GetInode (v6\<lparr>fClient := c7\<rparr>) w7 (vol_fRootFid v6)
                                            (attr_qid attr) of
                                       (Inl status, v8, w8) \<Rightarrow>
                                         (case Disconnect (fClient v8) w8 of
                                            (c9, w9) \<Rightarrow> (Inl status, v8\<lparr>fClient := c9\<rparr>, w9))
                                     | (Inr ino, v8, w8) \<Rightarrow>
                                         (Inr ino, v8\<lparr>fRootInode := Some ino\<rparr>, w8)))"

section \<open>A scripted transport\<close>

text \<open>
  A transport for running the client against given replies: \<open>SendMessage\<close> records the
  frame and succeeds; \<open>ReceiveMessage\<close> hands out the next scripted outcome, a status
  and a frame, and fails with \<open>B_IO_ERROR\<close> once the script is used up.
\<close>

record script =
  sent :: "uint8 list list"
  replies :: "(status_t \<times> uint8 list) list"

definition ScriptedTransport :: "script P9Transport" where
  "ScriptedTransport =
     \<lparr>SendMessage = (\<lambda>t frame. (B_OK, t\<lparr>sent := sent t @ [frame]\<rparr>)),
      ReceiveMessage = (\<lambda>t capacity.
        case replies t of
          [] \<Rightarrow> ((B_IO_ERROR, []), t)
        | r # rest \<Rightarrow> (r, t\<lparr>replies := rest\<rparr>))\<rparr>"

definition scripted_world :: "(status_t \<times> uint8 list) list \<Rightarrow> script world" where
  "scripted_world rs =
     \<lparr>transport = \<lparr>sent = [], replies = rs\<rparr>, heap = [], vfs = [],
      registry = [(bytes_of ''host'', ScriptedTransport)], junk32 = 0,
      junk_qid = \<lparr>qid_type = 0, qid_version = 0, qid_path = 0\<rparr>\<rparr>"

text \<open>The client after \<open>Init\<close> with the scripted transport and the given \<open>msize\<close>.\<close>

definition initial_client :: "uint32 \<Rightarrow> script P9Client" where
  "initial_client msize =
     fst (snd (P9Client_Init (Some ScriptedTransport) msize P9Client_new (scripted_world [])))"

text \<open>
  Replies of a server, as frames: \<open>Rversion\<close> with \<open>msize = 8192\<close> and version
  \<^verbatim>\<open>9P2000.L\<close>; \<open>Rattach\<close> and \<open>Rgetattr\<close> for a root directory with qid
  \<open>(0x80, 0, 1)\<close>; \<open>Rread\<close> with no data; \<open>Rwalk\<close> with no qid.
\<close>

definition Rversion_frame :: "uint8 list" where
  "Rversion_frame = [21, 0, 0, 0, 101, 0xFF, 0xFF] @ lendian32 8192 @ [8, 0] @ bytes_of ''9P2000.L''"

definition Rattach_frame :: "uint8 list" where
  "Rattach_frame = [20, 0, 0, 0, 105, 0, 0, 0x80, 0, 0, 0, 0, 1, 0, 0, 0, 0, 0, 0, 0]"

definition Rgetattr_frame :: "uint8 list" where
  "Rgetattr_frame =
     [160, 0, 0, 0, 25, 0, 0] @ lendian64 0x7ff
     @ [0x80, 0, 0, 0, 0, 1, 0, 0, 0, 0, 0, 0, 0]
     @ lendian32 0x41ED @ lendian32 1000 @ lendian32 1000
     @ concat (map lendian64 [2, 0, 4096, 4096, 8, 0, 0, 0, 0, 0, 0, 0, 0, 0, 0])"

definition Rread_empty_frame :: "uint8 list" where
  "Rread_empty_frame = [11, 0, 0, 0, 117, 0, 0, 0, 0, 0, 0]"

definition Rwalk_empty_frame :: "uint8 list" where
  "Rwalk_empty_frame = [9, 0, 0, 0, 111, 0, 0, 0, 0]"

text \<open>
  A volume mounted read-only over the scripted transport, and the root directory and
  a regular file of it as inodes.
\<close>

definition read_only_volume :: "script Volume" where
  "read_only_volume =
     fst (snd (Mount Volume_new
                 (scripted_world [(B_OK, Rversion_frame), (B_OK, Rattach_frame),
                                  (B_OK, Rgetattr_frame), (B_OK, Rgetattr_frame)])
                 B_MOUNT_READ_ONLY (Some (bytes_of ''tag=host''))))"

definition root_directory :: Inode where
  "root_directory = Inode_new 1 1 \<lparr>qid_type = 0x80, qid_version = 0, qid_path = 1\<rparr>"

definition regular_file :: Inode where
  "regular_file = Inode_new 2 2 \<lparr>qid_type = 0, qid_version = 0, qid_path = 2\<rparr>"

section \<open>Invariants of the pools\<close>

text \<open>
  The bitmap of a pool has a bit for every handle below \<open>fMaxTags\<close> or \<open>fMaxFids\<close>,
  as after \<open>Init\<close>; the handles in use are the bits set in it.
\<close>

definition TagPool_ok :: "TagPool \<Rightarrow> bool" where
  "TagPool_ok p \<longleftrightarrow> unat (fMaxTags p) \<le> 32 * length (tag_fBitmap p)"

definition tags_in_use :: "'t P9Client \<Rightarrow> uint32 list" where
  "tags_in_use c = tag_fBitmap (fTagPool c)"

definition FidPool_ok :: "FidPool \<Rightarrow> bool" where
  "FidPool_ok p \<longleftrightarrow> unat (fMaxFids p) \<le> 32 * length (fid_fBitmap p)"

definition fids_in_use :: "'t P9Client \<Rightarrow> uint32 list" where
  "fids_in_use c = fid_fBitmap (fFidPool c)"

(*PROPERTIES*)

section \<open>Properties\<close>

subsection \<open>Evaluation\<close>

text \<open>
  The scans of the pools are recursive; their equations are unfolded only where a
  proof asks for it.
\<close>

declare FidPool_scan.simps [simp del] TagPool_scan.simps [simp del]

lemma replicate_8_zero: "replicate 8 (0 :: uint32) = [0, 0, 0, 0, 0, 0, 0, 0]"
  by (simp add: numeral_eq_Suc)

lemma P9_NOTAG_eq: "P9_NOTAG = 65535"
  by (simp add: P9_NOTAG_def)

lemma P9_NOFID_eq: "P9_NOFID = 4294967295"
  by (simp add: P9_NOFID_def)

lemma P9_NONUNAME_eq: "P9_NONUNAME = 4294967295"
  by (simp add: P9_NONUNAME_def)

lemmas codec_defs =
  P9Message_Init_def P9Message_new_def P9Message_Reset_def P9Message_Size_def P9Message_Data_def
  builder_def WriteHeader_def FinalizeHeader_def on_buffer_def
  WriteUint8_def WriteUint16_def WriteUint32_def WriteUint64_def WriteString_def
  WriteStringLen_def WriteQid_def put_def fWritePos_def strlen_def cstring_def strcmp_eq_def
  bytes_of_def lendian16_def lendian32_def lendian64_def host16_def host32_def host64_def
  ReadHeader_def and_then_def value_of_def ReadUint8_def ReadUint16_def ReadUint32_def
  ReadUint64_def ReadString_def ReadQid_def P9Buffer_new_def P9Buffer_Reset_def
  P9Buffer_ResetRead_def P9_NOTAG_eq P9_NOFID_eq P9_NONUNAME_eq P9_HEADER_SIZE_def
  P9_VERSION_9P2000_L_def P9_type_defs

lemmas client_defs =
  initial_client_def scripted_world_def ScriptedTransport_def P9Client_Init_def P9Client_new_def
  FidPool_Init_def FidPool_new_def TagPool_Init_def TagPool_new_def allocate_def Let_def
  replicate_8_zero FidPool_scan.simps TagPool_scan.simps FidPool_Allocate_def FidPool_Release_def
  TagPool_Allocate_def TagPool_Release_def DoRequest_def CheckError_def Transaction_def
  p9_error_to_haiku_def status_of_def ParseLerror_def

lemmas frame_defs =
  Rversion_frame_def Rattach_frame_def Rgetattr_frame_def Rread_empty_frame_def
  Rwalk_empty_frame_def

subsection \<open>The type of a response\<close>

text \<open>
  C1. The operations that parse a payload return \<open>B_ERROR\<close> when the type of the
  response is neither theirs nor \<open>Rlerror\<close> (\<open>GetAttr\<close> below). \<open>Clunk\<close>, \<open>Remove\<close>,
  \<open>SetAttr\<close>, \<open>Unlink\<close>, \<open>Rename\<close>, \<open>FSync\<close> and \<open>Link\<close> only call \<open>CheckError\<close>:
  answered with an \<open>Rread\<close> frame (type 117) each of them returns \<open>B_OK\<close>.
\<close>

theorem unchecked_response_type:
  "fst (Clunk (initial_client 8192) (scripted_world [(B_OK, Rread_empty_frame)]) 5) = B_OK
   \<and> fst (P9Client_Remove (initial_client 8192) (scripted_world [(B_OK, Rread_empty_frame)]) 5)
       = B_OK
   \<and> fst (SetAttr (initial_client 8192) (scripted_world [(B_OK, Rread_empty_frame)])
            5 0 0 0 0 0 0 0 0 0) = B_OK
   \<and> fst (Unlink (initial_client 8192) (scripted_world [(B_OK, Rread_empty_frame)])
            5 (bytes_of ''a'') 0) = B_OK
   \<and> fst (P9Client_Rename (initial_client 8192) (scripted_world [(B_OK, Rread_empty_frame)])
            5 (bytes_of ''a'') 6 (bytes_of ''b'')) = B_OK
   \<and> fst (FSync (initial_client 8192) (scripted_world [(B_OK, Rread_empty_frame)]) 5 False)
       = B_OK
   \<and> fst (Link (initial_client 8192) (scripted_world [(B_OK, Rread_empty_frame)])
            5 6 (bytes_of ''a'')) = B_OK
   \<and> fst (GetAttr (initial_client 8192) (scripted_world [(B_OK, Rread_empty_frame)]) 5 0)
       = Inl B_ERROR"
  by (simp add: Clunk_def P9Client_Remove_def SetAttr_def Unlink_def P9Client_Rename_def
      FSync_def Link_def GetAttr_def codec_defs client_defs frame_defs BuildClunk_def
      BuildRemove_def BuildSetattr_def BuildUnlinkat_def BuildRenameat_def BuildFsync_def
      BuildLink_def BuildGetattr_def)

subsection \<open>The root FID\<close>

text \<open>
  C2. \<open>FidPool::Init\<close> marks slot 0 as in use and sets the hint to 1; \<open>Connect\<close> takes
  the root FID from \<open>Allocate\<close>, which skips the slots in use. On a client fresh from
  \<open>Init\<close>, a \<open>Connect\<close> that succeeds leaves the root FID 1: slots 0 and 1 are both
  marked in the bitmap, and the \<open>Tattach\<close> frame that was sent carries FID 1.
\<close>

theorem Connect_root_fid_is_1:
  "(case Connect (initial_client 8192)
           (scripted_world [(B_OK, Rversion_frame), (B_OK, Rattach_frame)]) [] of
      (status, c, w) \<Rightarrow>
        (status, fConnected c, fRootFid c, fid_fBitmap (fFidPool c), sent (transport w) ! 1))
   = (B_OK, True, 1, [3, 0, 0, 0, 0, 0, 0, 0],
      [23, 0, 0, 0, 104, 0, 0] @ lendian32 1 @ lendian32 P9_NOFID @ [0, 0] @ [0, 0]
      @ lendian32 P9_NONUNAME)"
  by (simp add: Connect_def Connect_attach_def codec_defs client_defs frame_defs
      BuildVersion_def BuildAttach_def ParseVersion_def ParseAttach_def)

subsection \<open>Mount arguments\<close>

text \<open>
  C9. \<open>_ParseArgs\<close> compares each option with \<open>tag\<close> and \<open>aname\<close> only; \<open>msize\<close> is
  treated like any unknown key, and \<open>Mount\<close> initialises the client with
  \<open>P9_DEFAULT_MSIZE\<close>. Mounting with \<^verbatim>\<open>tag=host,msize=4096\<close> succeeds, finds the
  transport registered as \<open>host\<close>, and proposes \<open>msize = 8192\<close> in its \<open>Tversion\<close>; the
  client's \<open>msize\<close> after the mount is 8192.
\<close>

theorem Mount_ignores_msize:
  "(case Mount Volume_new
           (scripted_world [(B_OK, Rversion_frame), (B_OK, Rattach_frame),
                            (B_OK, Rgetattr_frame), (B_OK, Rgetattr_frame)])
           0 (Some (bytes_of ''tag=host,msize=4096'')) of
      (r, v, w) \<Rightarrow>
        (r, fMountTag v, fAname v, fMsize (fClient v), hd (sent (transport w))))
   = (Inr 1, Some (bytes_of ''host''), None, 8192,
      [21, 0, 0, 0, 100, 0xFF, 0xFF] @ lendian32 8192 @ [8, 0] @ bytes_of ''9P2000.L'')"
  by (simp add: Mount_def Disconnect_def Clunk_def BuildClunk_def ParseArgs_def option_key_def
      option_value_def strdup_def P9_MOUNT_OPT_TAG_def P9_MOUNT_OPT_ANAME_def FindTransport_def
      Volume_new_def B_MOUNT_READ_ONLY_def P9_DEFAULT_MSIZE_def Connect_def Connect_attach_def
      GetAttr_def GetInode_def get_vnode_def publish_vnode_def Inode_Init_def UpdateStat_def
      Inode_new_def QidToIno_def Inode_delete_def P9_GETATTR_BASIC_def p9_mode_to_haiku_def
      S_IFDIR_def S_IFLNK_def S_IFREG_def P9_QTDIR_def P9_QTSYMLINK_def codec_defs client_defs
      frame_defs BuildVersion_def BuildAttach_def BuildGetattr_def ParseVersion_def
      ParseAttach_def ParseGetattr_def)

subsection \<open>Connect on a connected client\<close>

text \<open>
  C10. Calling \<open>Connect\<close> on a client that is already connected (and so has a
  transport) returns \<open>B_OK\<close> at once: the client record is returned as it was, so
  \<open>msize\<close>, \<open>iounit\<close>, the root FID, the connected flag and both pools are unchanged,
  and the world is returned as it was, so nothing was sent, received or allocated.
\<close>

theorem Connect_idempotent:
  "fTransport c \<noteq> None \<Longrightarrow> fConnected c \<Longrightarrow> Connect c w aname = (B_OK, c, w)"
  by (simp add: Connect_def)

theorem Connect_idempotent_witness:
  "fTransport ((initial_client 8192)\<lparr>fConnected := True\<rparr>) \<noteq> None
   \<and> fConnected ((initial_client 8192)\<lparr>fConnected := True\<rparr>)
   \<and> Connect ((initial_client 8192)\<lparr>fConnected := True\<rparr>) (scripted_world []) []
       = (B_OK, (initial_client 8192)\<lparr>fConnected := True\<rparr>, scripted_world [])"
proof -
  have t: "fTransport ((initial_client 8192)\<lparr>fConnected := True\<rparr>) \<noteq> None"
    by (simp add: initial_client_def P9Client_Init_def P9Client_new_def FidPool_Init_def
        TagPool_Init_def allocate_def scripted_world_def Let_def)
  have k: "fConnected ((initial_client 8192)\<lparr>fConnected := True\<rparr>)"
    by simp
  show ?thesis
    using t k Connect_idempotent [OF t k, of "scripted_world []" "[]"] by simp
qed

subsection \<open>The wire codec\<close>

lemma bit_byte_at:
  "bit (push_bit k (ucast (ucast (drop_bit k v) :: uint8)) :: 'a::len word) n
     \<longleftrightarrow> k \<le> n \<and> n < k + 8 \<and> bit (v :: 'a word) n"
  by (auto simp add: bit_simps dest: bit_imp_le_length)

lemma bit_byte_0:
  "bit (ucast (ucast v :: uint8) :: 'a::len word) n \<longleftrightarrow> n < 8 \<and> bit (v :: 'a word) n"
  by (auto simp add: bit_simps dest: bit_imp_le_length)

lemma host16_lendian16 [simp]: "host16 (lendian16 v @ r) = v"
proof (rule bit_word_eqI)
  fix n assume "n < LENGTH(16)"
  then show "bit (host16 (lendian16 v @ r)) n = bit v n"
    by (cases "bit v n")
       (simp_all add: host16_def lendian16_def bit_or_iff bit_byte_at bit_byte_0, linarith)
qed

lemma host32_lendian32 [simp]: "host32 (lendian32 v @ r) = v"
proof (rule bit_word_eqI)
  fix n assume "n < LENGTH(32)"
  then show "bit (host32 (lendian32 v @ r)) n = bit v n"
    by (cases "bit v n")
       (simp_all add: host32_def lendian32_def bit_or_iff bit_byte_at bit_byte_0, linarith)
qed

lemma host64_lendian64 [simp]: "host64 (lendian64 v @ r) = v"
proof (rule bit_word_eqI)
  fix n assume "n < LENGTH(64)"
  then show "bit (host64 (lendian64 v @ r)) n = bit v n"
    by (cases "bit v n")
       (simp_all add: host64_def lendian64_def bit_or_iff bit_byte_at bit_byte_0, linarith)
qed

lemma length_lendian [simp]:
  "length (lendian16 a) = 2" "length (lendian32 b) = 4" "length (lendian64 c) = 8"
  by (simp_all add: lendian16_def lendian32_def lendian64_def)

lemma unat_drop_bit_div: "unat (drop_bit k (v :: 'a::len word)) = unat v div 2 ^ k"
proof -
  have "unat (drop_bit k v) = drop_bit k (unat v)" by (rule unat_drop_bit_eq)
  also have "\<dots> = unat v div 2 ^ k" by (rule drop_bit_eq_div)
  finally show ?thesis .
qed

lemma unat_ucast_byte: "unat (ucast (v :: 'a::len word) :: 8 word) = unat v mod 256"
  by (simp add: unsigned_ucast_eq unsigned_take_bit_eq take_bit_eq_mod)

lemma lendian16_digits: "i < 2 \<Longrightarrow> unat (lendian16 v ! i) = (unat v div 256 ^ i) mod 256"
proof -
  assume "i < 2"
  then have "i \<in> set [0, 1]" by auto
  then show ?thesis
    by (auto simp add: lendian16_def unat_ucast_byte unat_drop_bit_div)
qed

lemma lendian32_digits: "i < 4 \<Longrightarrow> unat (lendian32 v ! i) = (unat v div 256 ^ i) mod 256"
proof -
  assume "i < 4"
  then have "i \<in> set [0, 1, 2, 3]" by auto
  then show ?thesis
    by (auto simp add: lendian32_def unat_ucast_byte unat_drop_bit_div)
qed

lemma lendian64_digits: "i < 8 \<Longrightarrow> unat (lendian64 v ! i) = (unat v div 256 ^ i) mod 256"
proof -
  assume "i < 8"
  then have "i \<in> set [0, 1, 2, 3, 4, 5, 6, 7]" by auto
  then show ?thesis
    by (auto simp add: lendian64_def unat_ucast_byte unat_drop_bit_div)
qed

text \<open>A read at the place where a value was written.\<close>

lemma ReadUint8_at:
  "fBuffer b = pre @ v # post \<Longrightarrow> fReadPos b = length pre
   \<Longrightarrow> ReadUint8 b = Inr (v, b\<lparr>fReadPos := length pre + 1\<rparr>)"
  by (simp add: ReadUint8_def fWritePos_def nth_append)

lemma ReadUint16_at:
  "fBuffer b = pre @ lendian16 v @ post \<Longrightarrow> fReadPos b = length pre
   \<Longrightarrow> ReadUint16 b = Inr (v, b\<lparr>fReadPos := length pre + 2\<rparr>)"
  by (simp add: ReadUint16_def fWritePos_def)

lemma ReadUint32_at:
  "fBuffer b = pre @ lendian32 v @ post \<Longrightarrow> fReadPos b = length pre
   \<Longrightarrow> ReadUint32 b = Inr (v, b\<lparr>fReadPos := length pre + 4\<rparr>)"
  by (simp add: ReadUint32_def fWritePos_def)

lemma ReadUint64_at:
  "fBuffer b = pre @ lendian64 v @ post \<Longrightarrow> fReadPos b = length pre
   \<Longrightarrow> ReadUint64 b = Inr (v, b\<lparr>fReadPos := length pre + 8\<rparr>)"
  by (simp add: ReadUint64_def fWritePos_def)

lemma ReadString_at:
  "fBuffer b = pre @ lendian16 (word_of_nat (length s)) @ s @ post \<Longrightarrow> fReadPos b = length pre
   \<Longrightarrow> length s < 65536 \<Longrightarrow> length s < bufferSize
   \<Longrightarrow> ReadString bufferSize b
       = Inr ((s, word_of_nat (length s)), b\<lparr>fReadPos := length pre + 2 + length s\<rparr>)"
  by (simp add: ReadString_def and_then_def ReadUint16_at [of b pre _ "s @ post"] fWritePos_def
      unat_of_nat)

lemma ReadQid_at:
  "fBuffer b = pre @ [qid_type q] @ lendian32 (qid_version q) @ lendian64 (qid_path q) @ post
   \<Longrightarrow> fReadPos b = length pre
   \<Longrightarrow> ReadQid b = Inr (q, b\<lparr>fReadPos := length pre + 13\<rparr>)"
  apply (simp add: ReadQid_def and_then_def
      ReadUint8_at [of b pre "qid_type q" "lendian32 (qid_version q) @ lendian64 (qid_path q) @ post"])
  apply (subst ReadUint32_at [of _ "pre @ [qid_type q]" "qid_version q" "lendian64 (qid_path q) @ post"])
    apply simp
   apply simp
  apply simp
  apply (subst ReadUint64_at [of _ "pre @ [qid_type q] @ lendian32 (qid_version q)" "qid_path q" post])
    apply simp
   apply simp
  apply simp
  done

lemma strlen_no_nul: "0 \<notin> set s \<Longrightarrow> strlen s = length s"
proof -
  assume "0 \<notin> set s"
  then have "takeWhile (\<lambda>c. c \<noteq> 0) s = s"
    by (auto simp add: takeWhile_eq_all_conv)
  then show ?thesis by (simp only: strlen_def cstring_def)
qed

lemma word16_of_nat_0: "n < 65536 \<Longrightarrow> (word_of_nat n :: uint16) = 0 \<longleftrightarrow> n = 0"
proof
  assume "n < 65536" "(word_of_nat n :: uint16) = 0"
  then have "unat (word_of_nat n :: uint16) = 0" by simp
  with \<open>n < 65536\<close> show "n = 0" by (simp add: unat_of_nat)
qed simp

lemma WriteString_ok:
  "0 \<notin> set s \<Longrightarrow> length s < 65536 \<Longrightarrow> fWritePos b + 2 + length s \<le> fCapacity b
   \<Longrightarrow> WriteString s b = (B_OK, put (lendian16 (word_of_nat (length s)) @ s) b)"
  by (cases "s = []")
     (auto simp add: WriteString_def WriteStringLen_def WriteUint16_def strlen_no_nul
        unat_of_nat put_def fWritePos_def word_greater_zero_iff word16_of_nat_0)

lemma WriteQid_ok:
  "fWritePos b + 13 \<le> fCapacity b
   \<Longrightarrow> WriteQid q b
       = (B_OK, put ([qid_type q] @ lendian32 (qid_version q) @ lendian64 (qid_path q)) b)"
  by (simp add: WriteQid_def WriteUint8_def WriteUint32_def WriteUint64_def put_def fWritePos_def)


lemma ReadUint8_next:
  "drop (fReadPos b) (fBuffer b) = v # post
   \<Longrightarrow> ReadUint8 b = Inr (v, b\<lparr>fReadPos := fReadPos b + 1\<rparr>)
       \<and> drop (fReadPos b + 1) (fBuffer b) = post"
proof -
  assume a: "drop (fReadPos b) (fBuffer b) = v # post"
  have "fBuffer b = take (fReadPos b) (fBuffer b) @ v # post"
    using a by (metis append_take_drop_id)
  moreover have "fReadPos b < length (fBuffer b)"
    using a by (metis drop_all list.distinct(1) not_le)
  ultimately show ?thesis
    using ReadUint8_at [of b "take (fReadPos b) (fBuffer b)" v post] a
    by (simp add: drop_Suc tl_drop [symmetric])
qed

lemma ReadUint16_next:
  "drop (fReadPos b) (fBuffer b) = lendian16 v @ post
   \<Longrightarrow> ReadUint16 b = Inr (v, b\<lparr>fReadPos := fReadPos b + 2\<rparr>)
       \<and> drop (fReadPos b + 2) (fBuffer b) = post"
proof -
  assume a: "drop (fReadPos b) (fBuffer b) = lendian16 v @ post"
  have "length (drop (fReadPos b) (fBuffer b)) = 2 + length post"
    using a by simp
  then have "fReadPos b + 2 \<le> length (fBuffer b)" by simp
  moreover have "drop (fReadPos b + 2) (fBuffer b) = drop 2 (drop (fReadPos b) (fBuffer b))"
    by (simp add: add.commute)
  ultimately show ?thesis
    using a by (simp add: ReadUint16_def fWritePos_def)
qed

lemma ReadUint32_next:
  "drop (fReadPos b) (fBuffer b) = lendian32 v @ post
   \<Longrightarrow> ReadUint32 b = Inr (v, b\<lparr>fReadPos := fReadPos b + 4\<rparr>)
       \<and> drop (fReadPos b + 4) (fBuffer b) = post"
proof -
  assume a: "drop (fReadPos b) (fBuffer b) = lendian32 v @ post"
  have "length (drop (fReadPos b) (fBuffer b)) = 4 + length post"
    using a by simp
  then have "fReadPos b + 4 \<le> length (fBuffer b)" by simp
  moreover have "drop (fReadPos b + 4) (fBuffer b) = drop 4 (drop (fReadPos b) (fBuffer b))"
    by (simp add: add.commute)
  ultimately show ?thesis
    using a by (simp add: ReadUint32_def fWritePos_def)
qed

lemma ReadString_next:
  assumes "drop (fReadPos b) (fBuffer b) = lendian16 (word_of_nat (length s)) @ s @ post"
    and "length s < 65536" "length s < bufferSize"
  shows "ReadString bufferSize b
       = Inr ((s, word_of_nat (length s)), b\<lparr>fReadPos := fReadPos b + 2 + length s\<rparr>)"
proof -
  have "fBuffer b = take (fReadPos b) (fBuffer b) @ lendian16 (word_of_nat (length s)) @ s @ post"
    using assms(1) by (metis append_take_drop_id)
  moreover have "fReadPos b \<le> length (fBuffer b)"
    using assms(1) by (metis drop_all lendian16_def append_is_Nil_conv list.distinct(1) nat_le_linear)
  ultimately show ?thesis
    using ReadString_at [of b "take (fReadPos b) (fBuffer b)" s post bufferSize] assms
    by (simp add: min_absorb2)
qed

lemma Version_round_trip:
  assumes "0 \<notin> set version" "length version < 65536" "length version < versionSize"
    and "13 + length version \<le> fCapacity (msg_buffer m)"
  shows "\<exists>m1 m2. BuildVersion tag msize version m = (B_OK, m1)
           \<and> ReadHeader m1 = Inr ((P9_TVERSION, tag, word_of_nat (13 + length version)), m2)
           \<and> ParseVersion versionSize m2 = Inr (msize, version)"
proof -
  let ?b0 = "P9Buffer_Reset (msg_buffer m)"
  let ?payload = "lendian32 msize @ lendian16 (word_of_nat (length version)) @ version"
  let ?hdr = "P9_TVERSION # lendian16 tag"
  let ?total = "lendian32 (word_of_nat (13 + length version))"
  let ?frame = "?total @ ?hdr @ ?payload"
  let ?m1 = "m\<lparr>msg_buffer := ?b0\<lparr>fBuffer := ?frame\<rparr>, fType := P9_TVERSION, fTag := tag\<rparr>"
  let ?b1 = "P9Buffer_ResetRead (msg_buffer ?m1)"
  let ?b2 = "?b1\<lparr>fReadPos := 4\<rparr>"
  let ?b3 = "?b1\<lparr>fReadPos := 5\<rparr>"
  let ?b4 = "?b1\<lparr>fReadPos := 7\<rparr>"
  let ?m2 = "?m1\<lparr>msg_buffer := ?b4, fType := P9_TVERSION, fTag := tag\<rparr>"
  have ws: "WriteString version b = (B_OK, put (lendian16 (word_of_nat (length version)) @ version) b)"
    if "fWritePos b + 2 + length version \<le> fCapacity b" for b
    using assms that by (simp add: WriteString_ok)
  have build: "BuildVersion tag msize version m = (B_OK, ?m1)"
    using assms(4)
    by (simp add: BuildVersion_def builder_def WriteHeader_def on_buffer_def P9Message_Reset_def
        P9Buffer_Reset_def WriteUint32_def WriteUint8_def WriteUint16_def ws put_def
        fWritePos_def FinalizeHeader_def Let_def)
  have r1: "ReadUint32 ?b1 = Inr (word_of_nat (13 + length version), ?b2)"
    using ReadUint32_next [of ?b1 "word_of_nat (13 + length version)" "?hdr @ ?payload"]
    by (simp add: P9Buffer_ResetRead_def P9Buffer_Reset_def)
  have r2: "ReadUint8 ?b2 = Inr (P9_TVERSION, ?b3)"
    using ReadUint8_next [of ?b2 P9_TVERSION "lendian16 tag @ ?payload"]
    by (simp add: P9Buffer_ResetRead_def P9Buffer_Reset_def)
  have r3: "ReadUint16 ?b3 = Inr (tag, ?b4)"
    using ReadUint16_next [of ?b3 tag ?payload]
    by (simp add: P9Buffer_ResetRead_def P9Buffer_Reset_def)
  have hdr: "ReadHeader ?m1 = Inr ((P9_TVERSION, tag, word_of_nat (13 + length version)), ?m2)"
    unfolding ReadHeader_def and_then_def using r1 r2 r3 by simp
  have r4: "ReadUint32 ?b4 = Inr (msize, ?b1\<lparr>fReadPos := 11\<rparr>)"
    using ReadUint32_next [of ?b4 msize "lendian16 (word_of_nat (length version)) @ version"]
    by (simp add: P9Buffer_ResetRead_def P9Buffer_Reset_def)
  have r5: "ReadString versionSize (?b1\<lparr>fReadPos := 11\<rparr>)
      = Inr ((version, word_of_nat (length version)), ?b1\<lparr>fReadPos := 13 + length version\<rparr>)"
    using ReadString_next [of "?b1\<lparr>fReadPos := 11\<rparr>" version "[]" versionSize] assms
    by (simp add: P9Buffer_ResetRead_def P9Buffer_Reset_def)
  have parse: "ParseVersion versionSize ?m2 = Inr (msize, version)"
    unfolding ParseVersion_def and_then_def using r4 r5 by simp
  from build hdr parse show ?thesis by blast
qed

lemma ReadUint64_next:
  "drop (fReadPos b) (fBuffer b) = lendian64 v @ post
   \<Longrightarrow> ReadUint64 b = Inr (v, b\<lparr>fReadPos := fReadPos b + 8\<rparr>)
       \<and> drop (fReadPos b + 8) (fBuffer b) = post"
proof -
  assume a: "drop (fReadPos b) (fBuffer b) = lendian64 v @ post"
  have "length (drop (fReadPos b) (fBuffer b)) = 8 + length post"
    using a by simp
  then have "fReadPos b + 8 \<le> length (fBuffer b)" by simp
  moreover have "drop (fReadPos b + 8) (fBuffer b) = drop 8 (drop (fReadPos b) (fBuffer b))"
    by (simp add: add.commute)
  ultimately show ?thesis
    using a by (simp add: ReadUint64_def fWritePos_def)
qed

lemma uint8_round_trip:
  "fReadPos b = fWritePos b \<Longrightarrow> fWritePos b + 1 \<le> fCapacity b
   \<Longrightarrow> \<exists>b'. WriteUint8 v b = (B_OK, b')
          \<and> ReadUint8 b' = Inr (v, b'\<lparr>fReadPos := fWritePos b'\<rparr>)"
  using ReadUint8_at [of "put [v] b" "fBuffer b" v "[]"]
  by (simp add: WriteUint8_def put_def fWritePos_def)

lemma uint16_round_trip:
  "fReadPos b = fWritePos b \<Longrightarrow> fWritePos b + 2 \<le> fCapacity b
   \<Longrightarrow> \<exists>b'. WriteUint16 v b = (B_OK, b')
          \<and> ReadUint16 b' = Inr (v, b'\<lparr>fReadPos := fWritePos b'\<rparr>)
          \<and> (\<forall>i<2. unat (fBuffer b' ! (fWritePos b + i)) = unat v div 256 ^ i mod 256)"
  using ReadUint16_at [of "put (lendian16 v) b" "fBuffer b" v "[]"]
  by (simp add: WriteUint16_def put_def fWritePos_def lendian16_digits)

lemma uint32_round_trip:
  "fReadPos b = fWritePos b \<Longrightarrow> fWritePos b + 4 \<le> fCapacity b
   \<Longrightarrow> \<exists>b'. WriteUint32 v b = (B_OK, b')
          \<and> ReadUint32 b' = Inr (v, b'\<lparr>fReadPos := fWritePos b'\<rparr>)
          \<and> (\<forall>i<4. unat (fBuffer b' ! (fWritePos b + i)) = unat v div 256 ^ i mod 256)"
  using ReadUint32_at [of "put (lendian32 v) b" "fBuffer b" v "[]"]
  by (simp add: WriteUint32_def put_def fWritePos_def lendian32_digits)

lemma uint64_round_trip:
  "fReadPos b = fWritePos b \<Longrightarrow> fWritePos b + 8 \<le> fCapacity b
   \<Longrightarrow> \<exists>b'. WriteUint64 v b = (B_OK, b')
          \<and> ReadUint64 b' = Inr (v, b'\<lparr>fReadPos := fWritePos b'\<rparr>)
          \<and> (\<forall>i<8. unat (fBuffer b' ! (fWritePos b + i)) = unat v div 256 ^ i mod 256)"
  using ReadUint64_at [of "put (lendian64 v) b" "fBuffer b" v "[]"]
  by (simp add: WriteUint64_def put_def fWritePos_def lendian64_digits)

lemma string_round_trip:
  "fReadPos b = fWritePos b \<Longrightarrow> 0 \<notin> set s \<Longrightarrow> length s < 65536 \<Longrightarrow> length s < bufferSize
   \<Longrightarrow> fWritePos b + 2 + length s \<le> fCapacity b
   \<Longrightarrow> \<exists>b'. WriteString s b = (B_OK, b')
          \<and> ReadString bufferSize b' = Inr ((s, word_of_nat (length s)), b'\<lparr>fReadPos := fWritePos b'\<rparr>)"
  using ReadString_at [of "put (lendian16 (word_of_nat (length s)) @ s) b" "fBuffer b" s "[]" bufferSize]
  by (simp add: WriteString_ok put_def fWritePos_def)

lemma qid_round_trip:
  "fReadPos b = fWritePos b \<Longrightarrow> fWritePos b + 13 \<le> fCapacity b
   \<Longrightarrow> \<exists>b'. WriteQid q b = (B_OK, b')
          \<and> ReadQid b' = Inr (q, b'\<lparr>fReadPos := fWritePos b'\<rparr>)"
  using ReadQid_at [of "put ([qid_type q] @ lendian32 (qid_version q) @ lendian64 (qid_path q)) b"
      "fBuffer b" q "[]"]
  by (simp add: WriteQid_ok put_def fWritePos_def)

text \<open>
  C7. Every encoder of \<open>P9Buffer\<close> is inverted by its decoder: on a cursor whose
  written bytes have all been read (\<open>fReadPos = fWritePos\<close>) and that has room for
  the value, \<open>WriteUint8/16/32/64\<close>, \<open>WriteString\<close> and \<open>WriteQid\<close> succeed and the
  matching \<open>Read\<close> then returns the value written and leaves the cursor at the end.
  The valid strings are the C strings of fewer than \<open>2^16\<close> bytes (no NUL inside),
  read into an array longer than the string. The multi-byte integers are
  little-endian: byte \<open>i\<close> of the encoding is digit \<open>i\<close> of the value in base 256. At
  the level of messages the builders encode requests and the parsers decode replies;
  the one message whose request and reply share a layout is \<open>version\<close>, and there
  \<open>ReadHeader\<close> and \<open>ParseVersion\<close> return what \<open>BuildVersion\<close> was given, the size
  field being the length of the frame.
\<close>

theorem codec_round_trip:
  assumes "fReadPos b = fWritePos b"
  shows
    "(fWritePos b + 1 \<le> fCapacity b \<longrightarrow>
        (\<exists>b'. WriteUint8 v8 b = (B_OK, b')
           \<and> ReadUint8 b' = Inr (v8, b'\<lparr>fReadPos := fWritePos b'\<rparr>)))
     \<and> (fWritePos b + 2 \<le> fCapacity b \<longrightarrow>
        (\<exists>b'. WriteUint16 v16 b = (B_OK, b')
           \<and> ReadUint16 b' = Inr (v16, b'\<lparr>fReadPos := fWritePos b'\<rparr>)
           \<and> (\<forall>i<2. unat (fBuffer b' ! (fWritePos b + i)) = unat v16 div 256 ^ i mod 256)))
     \<and> (fWritePos b + 4 \<le> fCapacity b \<longrightarrow>
        (\<exists>b'. WriteUint32 v32 b = (B_OK, b')
           \<and> ReadUint32 b' = Inr (v32, b'\<lparr>fReadPos := fWritePos b'\<rparr>)
           \<and> (\<forall>i<4. unat (fBuffer b' ! (fWritePos b + i)) = unat v32 div 256 ^ i mod 256)))
     \<and> (fWritePos b + 8 \<le> fCapacity b \<longrightarrow>
        (\<exists>b'. WriteUint64 v64 b = (B_OK, b')
           \<and> ReadUint64 b' = Inr (v64, b'\<lparr>fReadPos := fWritePos b'\<rparr>)
           \<and> (\<forall>i<8. unat (fBuffer b' ! (fWritePos b + i)) = unat v64 div 256 ^ i mod 256)))
     \<and> (0 \<notin> set s \<and> length s < 65536 \<and> length s < bufferSize
          \<and> fWritePos b + 2 + length s \<le> fCapacity b \<longrightarrow>
        (\<exists>b'. WriteString s b = (B_OK, b')
           \<and> ReadString bufferSize b'
               = Inr ((s, word_of_nat (length s)), b'\<lparr>fReadPos := fWritePos b'\<rparr>)))
     \<and> (fWritePos b + 13 \<le> fCapacity b \<longrightarrow>
        (\<exists>b'. WriteQid q b = (B_OK, b')
           \<and> ReadQid b' = Inr (q, b'\<lparr>fReadPos := fWritePos b'\<rparr>)))
     \<and> (0 \<notin> set s \<and> length s < 65536 \<and> length s < bufferSize
          \<and> 13 + length s \<le> fCapacity (msg_buffer m) \<longrightarrow>
        (\<exists>m1 m2. BuildVersion tag msize s m = (B_OK, m1)
           \<and> ReadHeader m1 = Inr ((P9_TVERSION, tag, word_of_nat (13 + length s)), m2)
           \<and> ParseVersion bufferSize m2 = Inr (msize, s)))"
  using assms uint8_round_trip [of b v8] uint16_round_trip [of b v16]
    uint32_round_trip [of b v32] uint64_round_trip [of b v64]
    string_round_trip [of b s bufferSize] qid_round_trip [of b q]
    Version_round_trip [of s bufferSize m tag msize]
  by blast

theorem codec_round_trip_witness:
  "fReadPos (P9Buffer_new 64) = fWritePos (P9Buffer_new 64)
   \<and> (\<exists>b'. WriteUint8 0xAB (P9Buffer_new 64) = (B_OK, b')
          \<and> ReadUint8 b' = Inr (0xAB, b'\<lparr>fReadPos := fWritePos b'\<rparr>))
   \<and> (\<exists>b'. WriteUint16 0x1234 (P9Buffer_new 64) = (B_OK, b')
          \<and> ReadUint16 b' = Inr (0x1234, b'\<lparr>fReadPos := fWritePos b'\<rparr>)
          \<and> fBuffer b' = [0x34, 0x12])
   \<and> (\<exists>b'. WriteUint32 0x12345678 (P9Buffer_new 64) = (B_OK, b')
          \<and> ReadUint32 b' = Inr (0x12345678, b'\<lparr>fReadPos := fWritePos b'\<rparr>)
          \<and> fBuffer b' = [0x78, 0x56, 0x34, 0x12])
   \<and> (\<exists>b'. WriteUint64 0x0102030405060708 (P9Buffer_new 64) = (B_OK, b')
          \<and> ReadUint64 b' = Inr (0x0102030405060708, b'\<lparr>fReadPos := fWritePos b'\<rparr>)
          \<and> fBuffer b' = [8, 7, 6, 5, 4, 3, 2, 1])
   \<and> (\<exists>b'. WriteString [0x39, 0x50] (P9Buffer_new 64) = (B_OK, b')
          \<and> ReadString 32 b' = Inr (([0x39, 0x50], 2), b'\<lparr>fReadPos := fWritePos b'\<rparr>)
          \<and> fBuffer b' = [2, 0, 0x39, 0x50])
   \<and> (\<exists>b'. WriteQid \<lparr>qid_type = 0x80, qid_version = 7, qid_path = 0x1122334455\<rparr>
                (P9Buffer_new 64) = (B_OK, b')
          \<and> ReadQid b' = Inr (\<lparr>qid_type = 0x80, qid_version = 7, qid_path = 0x1122334455\<rparr>,
                               b'\<lparr>fReadPos := fWritePos b'\<rparr>)
          \<and> fBuffer b' = [0x80, 7, 0, 0, 0, 0x55, 0x44, 0x33, 0x22, 0x11, 0, 0, 0])
   \<and> (\<exists>m1 m2. BuildVersion P9_NOTAG 8192 [0x39, 0x50]
                  ((P9Message_new 0)\<lparr>msg_buffer := P9Buffer_new 64\<rparr>) = (B_OK, m1)
          \<and> ReadHeader m1 = Inr ((P9_TVERSION, P9_NOTAG, 15), m2)
          \<and> ParseVersion 32 m2 = Inr (8192, [0x39, 0x50])
          \<and> fBuffer (msg_buffer m1)
              = [15, 0, 0, 0, 100, 0xFF, 0xFF, 0, 0x20, 0, 0, 2, 0, 0x39, 0x50])"
proof -
  let ?b = "P9Buffer_new 64"
  let ?q = "\<lparr>qid_type = 0x80, qid_version = 7, qid_path = 0x1122334455\<rparr>"
  let ?m = "(P9Message_new 0)\<lparr>msg_buffer := P9Buffer_new 64\<rparr>"
  have h: "fReadPos ?b = fWritePos ?b"
    by (simp add: P9Buffer_new_def fWritePos_def)
  have room: "fWritePos ?b = 0" "fCapacity ?b = 64" "fCapacity (msg_buffer ?m) = 64"
    by (simp_all add: P9Buffer_new_def fWritePos_def)
  note t = codec_round_trip [OF h, of "0xAB" "0x1234" "0x12345678" "0x0102030405060708"
      "[0x39, 0x50]" 32 ?q ?m P9_NOTAG 8192]
  have bytes:
    "fBuffer (snd (WriteUint16 0x1234 ?b)) = [0x34, 0x12]"
    "fBuffer (snd (WriteUint32 0x12345678 ?b)) = [0x78, 0x56, 0x34, 0x12]"
    "fBuffer (snd (WriteUint64 0x0102030405060708 ?b)) = [8, 7, 6, 5, 4, 3, 2, 1]"
    "fBuffer (snd (WriteString [0x39, 0x50] ?b)) = [2, 0, 0x39, 0x50]"
    "fBuffer (snd (WriteQid ?q ?b)) = [0x80, 7, 0, 0, 0, 0x55, 0x44, 0x33, 0x22, 0x11, 0, 0, 0]"
    "fBuffer (msg_buffer (snd (BuildVersion P9_NOTAG 8192 [0x39, 0x50] ?m)))
       = [15, 0, 0, 0, 100, 0xFF, 0xFF, 0, 0x20, 0, 0, 2, 0, 0x39, 0x50]"
    by (simp_all add: P9Buffer_new_def fWritePos_def WriteUint8_def WriteUint16_def
        WriteUint32_def WriteUint64_def WriteString_def WriteStringLen_def WriteQid_def put_def
        strlen_def cstring_def lendian16_def lendian32_def lendian64_def P9_NOTAG_eq
        P9_TVERSION_def P9Message_new_def BuildVersion_def builder_def WriteHeader_def
        on_buffer_def P9Message_Reset_def P9Buffer_Reset_def FinalizeHeader_def Let_def)
  note u = t [unfolded room, simplified]
  from u h bytes show ?thesis
    by (elim exE conjE) simp
qed

subsection \<open>Read-only mounts\<close>

lemma read_only_volume_flag: "fReadOnly read_only_volume"
  by (simp add: read_only_volume_def Mount_def Disconnect_def Clunk_def BuildClunk_def
      ParseArgs_def option_key_def option_value_def strdup_def P9_MOUNT_OPT_TAG_def
      P9_MOUNT_OPT_ANAME_def FindTransport_def Volume_new_def B_MOUNT_READ_ONLY_def
      P9_DEFAULT_MSIZE_def Connect_def Connect_attach_def GetAttr_def GetInode_def get_vnode_def
      publish_vnode_def Inode_Init_def UpdateStat_def Inode_new_def QidToIno_def
      Inode_delete_def P9_GETATTR_BASIC_def p9_mode_to_haiku_def S_IFDIR_def S_IFLNK_def
      S_IFREG_def P9_QTDIR_def P9_QTSYMLINK_def codec_defs client_defs frame_defs
      BuildVersion_def BuildAttach_def BuildGetattr_def ParseVersion_def ParseAttach_def
      ParseGetattr_def)

lemma root_directory_is_directory: "IsDirectory root_directory"
  by (simp add: root_directory_def Inode_new_def IsDirectory_def P9_QTDIR_def S_IFDIR_def
      S_IFMT_def)

lemma regular_file_is_no_directory: "\<not> IsDirectory regular_file"
  by (simp add: regular_file_def Inode_new_def IsDirectory_def P9_QTDIR_def P9_QTSYMLINK_def
      S_IFDIR_def S_IFREG_def S_IFMT_def)

text \<open>
  C6, as the claim states it, fails: on a read-only volume \<open>Remove\<close> called on an
  inode that is not a directory returns \<open>B_NOT_A_DIRECTORY\<close>, and \<open>Write\<close> at a
  negative position returns \<open>B_BAD_VALUE\<close>; these checks come before the read-only
  check.
\<close>

theorem read_only_argument_checks_first:
  "fReadOnly read_only_volume
   \<and> fst (Inode_Remove regular_file read_only_volume (scripted_world []) (bytes_of ''a''))
       = B_NOT_A_DIRECTORY
   \<and> Inode_Write regular_file read_only_volume (scripted_world [])
         \<lparr>cookie_fid = 3, cookie_openMode = 1, cookie_position = 0\<rparr> (- 1) [] 0
       = Some (Inl B_BAD_VALUE, regular_file, read_only_volume, scripted_world [])"
  by (simp add: read_only_volume_flag regular_file_is_no_directory Inode_Remove_def
      Inode_Write_def)

text \<open>
  C6, amended. On a volume mounted read-only every mutating inode operation returns
  before it allocates, builds or sends anything, with the inodes, the volume (and so
  the client and its pools) and the world exactly as they were. The status is
  \<open>B_READ_ONLY_DEVICE\<close>, except where the check of the arguments that precedes the
  read-only check fails: \<open>B_BAD_VALUE\<close> for \<open>Write\<close> at a negative position, and
  \<open>B_NOT_A_DIRECTORY\<close> for \<open>Create\<close>, \<open>Remove\<close>, \<open>Rename\<close>, \<open>CreateDir\<close>,
  \<open>RemoveDir\<close> and \<open>CreateSymlink\<close> on an inode that is not a directory (for
  \<open>Rename\<close> also when the target directory is not one).
\<close>

theorem read_only_rejects_mutations:
  assumes "fReadOnly v"
  shows
    "Inode_Write i v w cookie pos buffer len
       = Some (Inl (if sint pos < 0 then B_BAD_VALUE else B_READ_ONLY_DEVICE), i, v, w)
     \<and> Inode_Create i v w name openMode perms
       = (Inl (if IsDirectory i then B_READ_ONLY_DEVICE else B_NOT_A_DIRECTORY), v, w)
     \<and> Inode_Remove i v w name
       = (if IsDirectory i then B_READ_ONLY_DEVICE else B_NOT_A_DIRECTORY, v, w)
     \<and> Inode_Rename i v w name toDir toName
       = (if IsDirectory i \<and> IsDirectory toDir then B_READ_ONLY_DEVICE
          else B_NOT_A_DIRECTORY, v, w)
     \<and> CreateDir i v w name perms
       = (if IsDirectory i then B_READ_ONLY_DEVICE else B_NOT_A_DIRECTORY, v, w)
     \<and> RemoveDir i v w name
       = (if IsDirectory i then B_READ_ONLY_DEVICE else B_NOT_A_DIRECTORY, v, w)
     \<and> CreateSymlink i v w name target
       = (if IsDirectory i then B_READ_ONLY_DEVICE else B_NOT_A_DIRECTORY, v, w)
     \<and> WriteStat i v w st statMask = (B_READ_ONLY_DEVICE, i, v, w)"
  using assms
  by (simp add: Inode_Write_def Inode_Create_def Inode_Remove_def Inode_Rename_def CreateDir_def
      RemoveDir_def CreateSymlink_def WriteStat_def)

theorem read_only_rejects_mutations_witness:
  "fReadOnly read_only_volume
   \<and> Inode_Write regular_file read_only_volume (scripted_world [])
         \<lparr>cookie_fid = 3, cookie_openMode = 1, cookie_position = 0\<rparr> 0 (bytes_of ''x'') 1
       = Some (Inl B_READ_ONLY_DEVICE, regular_file, read_only_volume, scripted_world [])
   \<and> Inode_Create root_directory read_only_volume (scripted_world []) (bytes_of ''a'') 1 420
       = (Inl B_READ_ONLY_DEVICE, read_only_volume, scripted_world [])
   \<and> Inode_Remove root_directory read_only_volume (scripted_world []) (bytes_of ''a'')
       = (B_READ_ONLY_DEVICE, read_only_volume, scripted_world [])
   \<and> Inode_Rename root_directory read_only_volume (scripted_world []) (bytes_of ''a'')
         root_directory (bytes_of ''b'')
       = (B_READ_ONLY_DEVICE, read_only_volume, scripted_world [])
   \<and> CreateDir root_directory read_only_volume (scripted_world []) (bytes_of ''a'') 493
       = (B_READ_ONLY_DEVICE, read_only_volume, scripted_world [])
   \<and> RemoveDir root_directory read_only_volume (scripted_world []) (bytes_of ''a'')
       = (B_READ_ONLY_DEVICE, read_only_volume, scripted_world [])
   \<and> CreateSymlink root_directory read_only_volume (scripted_world []) (bytes_of ''a'')
         (bytes_of ''b'')
       = (B_READ_ONLY_DEVICE, read_only_volume, scripted_world [])
   \<and> WriteStat regular_file read_only_volume (scripted_world [])
         \<lparr>st_mode = 420, st_uid = 0, st_gid = 0, st_size = 0, st_atim_sec = 0,
          st_atim_nsec = 0, st_mtim_sec = 0, st_mtim_nsec = 0\<rparr> B_STAT_MODE
       = (B_READ_ONLY_DEVICE, regular_file, read_only_volume, scripted_world [])"
proof -
  let ?cookie = "\<lparr>cookie_fid = 3, cookie_openMode = 1, cookie_position = 0\<rparr>"
  let ?st = "\<lparr>st_mode = 420, st_uid = 0, st_gid = 0, st_size = 0, st_atim_sec = 0,
          st_atim_nsec = 0, st_mtim_sec = 0, st_mtim_nsec = 0\<rparr>"
  note on_file = read_only_rejects_mutations [OF read_only_volume_flag,
      where i = regular_file and w = "scripted_world []" and cookie = ?cookie and pos = 0
        and buffer = "bytes_of ''x''" and len = 1 and st = ?st and statMask = B_STAT_MODE]
  note on_dir = read_only_rejects_mutations [OF read_only_volume_flag,
      where i = root_directory and w = "scripted_world []" and name = "bytes_of ''a''"
        and openMode = 1 and perms = 420 and toDir = root_directory
        and toName = "bytes_of ''b''" and target = "bytes_of ''b''"]
  note on_dir2 = read_only_rejects_mutations [OF read_only_volume_flag,
      where i = root_directory and w = "scripted_world []" and name = "bytes_of ''a''"
        and perms = 493]
  from on_file on_dir on_dir2 read_only_volume_flag root_directory_is_directory show ?thesis
    by simp
qed

subsection \<open>Tags\<close>

lemma set_then_clear: "x AND b = 0 \<Longrightarrow> (x OR b) AND NOT b = (x :: 'a::len word)"
  by (rule bit_word_eqI) (auto simp add: bit_simps dest: bit_and_iff [THEN iffD2, of x _ b] simp: bit_eq_iff)

lemma unat_uint16_bound: "unat (m :: uint16) < 65536"
  using unsigned_less [of m, where ?'a = nat] by simp

lemma unat_tag: "t < unat (m :: uint16) \<Longrightarrow> unat (word_of_nat t :: uint16) = t"
proof -
  assume a: "t < unat m"
  have "unat m < 65536" by (rule unat_uint16_bound)
  with a show ?thesis by (simp add: unat_of_nat)
qed

lemma TagPool_scan_Release:
  "TagPool_ok p \<Longrightarrow> TagPool_scan p i = (tag, p')
   \<Longrightarrow> tag_fBitmap (TagPool_Release p' tag) = tag_fBitmap p"
proof (induction p i rule: TagPool_scan.induct)
  case (1 p i)
  show ?case
  proof (cases "i < unat (fMaxTags p)")
    case False
    with "1.prems" show ?thesis
      by (simp add: TagPool_scan.simps [of p i] TagPool_Release_def)
  next
    case True
    let ?t = "(unat (tag_fNextHint p) + i) mod unat (fMaxTags p)"
    have t: "?t < unat (fMaxTags p)" using True by simp
    have ut: "unat (word_of_nat ?t :: uint16) = ?t" using t by (rule unat_tag)
    have idx: "?t div 32 < length (tag_fBitmap p)"
      using t "1.prems"(1) by (simp add: TagPool_ok_def) 
    show ?thesis
    proof (cases "(tag_fBitmap p ! (?t div 32)) AND push_bit (?t mod 32) 1 = 0")
      case free: True
      have lt: "(word_of_nat ?t :: uint16) < fMaxTags p"
        using t ut by (simp add: word_less_nat_alt)
      have ne: "(word_of_nat ?t :: uint16) \<noteq> P9_NOTAG"
      proof
        assume "(word_of_nat ?t :: uint16) = P9_NOTAG"
        then have "unat (word_of_nat ?t :: uint16) = 65535" by (simp add: P9_NOTAG_eq)
        with ut t unat_uint16_bound [of "fMaxTags p"] show False by simp
      qed
      from "1.prems"(2) True free have
        "tag = word_of_nat ?t"
        "p' = p\<lparr>tag_fBitmap := (tag_fBitmap p)[?t div 32 :=
                 tag_fBitmap p ! (?t div 32) OR push_bit (?t mod 32) 1],
               tag_fNextHint := word_of_nat ((?t + 1) mod unat (fMaxTags p))\<rparr>"
        by (simp_all add: TagPool_scan.simps [of p i] Let_def)
      then show ?thesis
        using lt ne ut idx free
        by (simp add: TagPool_Release_def Let_def set_then_clear not_le [symmetric] list_update_same_conv)
    next
      case used: False
      with "1.prems"(2) True have "TagPool_scan p (i + 1) = (tag, p')"
        by (simp add: TagPool_scan.simps [of p i] Let_def)
      with "1.IH" True used "1.prems"(1) show ?thesis
        by (simp add: Let_def)
    qed
  qed
qed


lemma Transaction_client:
  "fst (snd (Transaction build c w)) = c
   \<or> fst (snd (Transaction build c w))
       = c\<lparr>fTagPool := TagPool_Release (snd (TagPool_Allocate (fTagPool c)))
                              (fst (TagPool_Allocate (fTagPool c)))\<rparr>"
  by (simp add: Transaction_def Let_def split: prod.split)

lemma Transaction_tags:
  assumes "TagPool_ok (fTagPool c)"
  shows "tag_fBitmap (fTagPool (fst (snd (Transaction build c w)))) = tag_fBitmap (fTagPool c)"
proof -
  obtain tag tp where a: "TagPool_scan (fTagPool c) 0 = (tag, tp)"
    by (cases "TagPool_scan (fTagPool c) 0")
  from TagPool_scan_Release [OF assms a]
  have "tag_fBitmap (TagPool_Release tp tag) = tag_fBitmap (fTagPool c)" .
  with a Transaction_client [of build c w] show ?thesis
    by (auto simp add: TagPool_Allocate_def)
qed

lemma P9Client_Open_client:
  "snd (P9Client_Open c w fid flags) = snd (Transaction (\<lambda>tag. BuildLopen tag fid flags) c w)"
  by (cases "Transaction (\<lambda>tag. BuildLopen tag fid flags) c w" rule: prod_cases3)
     (simp add: P9Client_Open_def Let_def split: sum.split prod.split)

lemma P9Client_Create_client:
  "snd (P9Client_Create c w fid name flags mode gid) = snd (Transaction (\<lambda>tag. BuildLcreate tag fid name flags mode gid) c w)"
  by (cases "Transaction (\<lambda>tag. BuildLcreate tag fid name flags mode gid) c w" rule: prod_cases3)
     (simp add: P9Client_Create_def Let_def split: sum.split prod.split)

lemma P9Client_Read_client:
  "snd (P9Client_Read c w fid offset n) = snd (Transaction (\<lambda>tag. BuildRead tag fid offset (if n > fIOUnit c then fIOUnit c else n)) c w)"
  by (cases "Transaction (\<lambda>tag. BuildRead tag fid offset (if n > fIOUnit c then fIOUnit c else n)) c w" rule: prod_cases3)
     (simp add: P9Client_Read_def Let_def split: sum.split prod.split)

lemma P9Client_Write_client:
  "snd (P9Client_Write c w fid offset buffer n) = snd (Transaction (\<lambda>tag. BuildWrite tag fid offset buffer (if n > fIOUnit c then fIOUnit c else n)) c w)"
  by (cases "Transaction (\<lambda>tag. BuildWrite tag fid offset buffer (if n > fIOUnit c then fIOUnit c else n)) c w" rule: prod_cases3)
     (simp add: P9Client_Write_def Let_def split: sum.split prod.split)

lemma Clunk_client:
  "snd (Clunk c w fid) = snd (Transaction (\<lambda>tag. BuildClunk tag fid) c w)"
  by (cases "Transaction (\<lambda>tag. BuildClunk tag fid) c w" rule: prod_cases3)
     (simp add: Clunk_def Let_def split: sum.split prod.split)

lemma P9Client_Remove_client:
  "snd (P9Client_Remove c w fid) = snd (Transaction (\<lambda>tag. BuildRemove tag fid) c w)"
  by (cases "Transaction (\<lambda>tag. BuildRemove tag fid) c w" rule: prod_cases3)
     (simp add: P9Client_Remove_def Let_def split: sum.split prod.split)

lemma GetAttr_client:
  "snd (GetAttr c w fid req_mask) = snd (Transaction (\<lambda>tag. BuildGetattr tag fid req_mask) c w)"
  by (cases "Transaction (\<lambda>tag. BuildGetattr tag fid req_mask) c w" rule: prod_cases3)
     (simp add: GetAttr_def Let_def split: sum.split prod.split)

lemma SetAttr_client:
  "snd (SetAttr c w fid valid mode uid gid fsize atime_sec atime_nsec mtime_sec mtime_nsec) = snd (Transaction (\<lambda>tag. BuildSetattr tag fid valid mode uid gid fsize atime_sec atime_nsec mtime_sec mtime_nsec) c w)"
  by (cases "Transaction (\<lambda>tag. BuildSetattr tag fid valid mode uid gid fsize atime_sec atime_nsec mtime_sec mtime_nsec) c w" rule: prod_cases3)
     (simp add: SetAttr_def Let_def split: sum.split prod.split)

lemma P9Client_ReadDir_client:
  "snd (P9Client_ReadDir c w fid offset n) = snd (Transaction (\<lambda>tag. BuildReaddir tag fid offset (if n > fIOUnit c then fIOUnit c else n)) c w)"
  by (cases "Transaction (\<lambda>tag. BuildReaddir tag fid offset (if n > fIOUnit c then fIOUnit c else n)) c w" rule: prod_cases3)
     (simp add: P9Client_ReadDir_def Let_def split: sum.split prod.split)

lemma Mkdir_client:
  "snd (Mkdir c w dfid name mode gid want_qid) = snd (Transaction (\<lambda>tag. BuildMkdir tag dfid name mode gid) c w)"
  by (cases "Transaction (\<lambda>tag. BuildMkdir tag dfid name mode gid) c w" rule: prod_cases3)
     (simp add: Mkdir_def Let_def split: sum.split prod.split)

lemma Unlink_client:
  "snd (Unlink c w dfid name flags) = snd (Transaction (\<lambda>tag. BuildUnlinkat tag dfid name flags) c w)"
  by (cases "Transaction (\<lambda>tag. BuildUnlinkat tag dfid name flags) c w" rule: prod_cases3)
     (simp add: Unlink_def Let_def split: sum.split prod.split)

lemma P9Client_Rename_client:
  "snd (P9Client_Rename c w olddirfid oldname newdirfid newname) = snd (Transaction (\<lambda>tag. BuildRenameat tag olddirfid oldname newdirfid newname) c w)"
  by (cases "Transaction (\<lambda>tag. BuildRenameat tag olddirfid oldname newdirfid newname) c w" rule: prod_cases3)
     (simp add: P9Client_Rename_def Let_def split: sum.split prod.split)

lemma StatFS_client:
  "snd (StatFS c w fid) = snd (Transaction (\<lambda>tag. BuildStatfs tag fid) c w)"
  by (cases "Transaction (\<lambda>tag. BuildStatfs tag fid) c w" rule: prod_cases3)
     (simp add: StatFS_def Let_def split: sum.split prod.split)

lemma FSync_client:
  "snd (FSync c w fid dataOnly) = snd (Transaction (\<lambda>tag. BuildFsync tag fid (if dataOnly then 1 else 0)) c w)"
  by (cases "Transaction (\<lambda>tag. BuildFsync tag fid (if dataOnly then 1 else 0)) c w" rule: prod_cases3)
     (simp add: FSync_def Let_def split: sum.split prod.split)

lemma P9Client_ReadLink_client:
  "snd (P9Client_ReadLink c w fid targetSize) = snd (Transaction (\<lambda>tag. BuildReadlink tag fid) c w)"
  by (cases "Transaction (\<lambda>tag. BuildReadlink tag fid) c w" rule: prod_cases3)
     (simp add: P9Client_ReadLink_def Let_def split: sum.split prod.split)

lemma Symlink_client:
  "snd (Symlink c w dfid name target gid want_qid) = snd (Transaction (\<lambda>tag. BuildSymlink tag dfid name target gid) c w)"
  by (cases "Transaction (\<lambda>tag. BuildSymlink tag dfid name target gid) c w" rule: prod_cases3)
     (simp add: Symlink_def Let_def split: sum.split prod.split)

lemma Link_client:
  "snd (Link c w dfid fid name) = snd (Transaction (\<lambda>tag. BuildLink tag dfid fid name) c w)"
  by (cases "Transaction (\<lambda>tag. BuildLink tag dfid fid name) c w" rule: prod_cases3)
     (simp add: Link_def Let_def split: sum.split prod.split)

lemma WalkPath_client:
  "snd (WalkPath c w fid newfid nwname wnames) = snd (Transaction (\<lambda>tag. BuildWalk tag fid newfid nwname wnames) c w)"
  by (cases "Transaction (\<lambda>tag. BuildWalk tag fid newfid nwname wnames) c w" rule: prod_cases3)
     (simp add: WalkPath_def Let_def split: sum.split prod.split)

lemmas operation_client =
  P9Client_Open_client P9Client_Create_client P9Client_Read_client P9Client_Write_client
  Clunk_client P9Client_Remove_client GetAttr_client SetAttr_client P9Client_ReadDir_client
  Mkdir_client Unlink_client P9Client_Rename_client StatFS_client FSync_client
  P9Client_ReadLink_client Symlink_client Link_client WalkPath_client

lemma WalkPath_tags:
  assumes "TagPool_ok (fTagPool c)"
    and "WalkPath c w fid newfid nwname wnames = (r, c1, w1)"
  shows "tag_fBitmap (fTagPool c1) = tag_fBitmap (fTagPool c)"
proof -
  have "c1 = fst (snd (WalkPath c w fid newfid nwname wnames))"
    using assms(2) by simp
  then show ?thesis
    using assms(1) by (simp add: WalkPath_client Transaction_tags)
qed

lemma Walk_tags:
  "TagPool_ok (fTagPool c)
   \<Longrightarrow> tag_fBitmap (fTagPool (fst (snd (Walk c w fid newfid path)))) = tag_fBitmap (fTagPool c)"
  unfolding Walk_def Let_def
  by (auto split: prod.split sum.split dest: WalkPath_tags)

lemma Connect_attach_client:
  "fTagPool (fst (snd (Connect_attach c w request aname))) = fTagPool c
   \<or> fTagPool (fst (snd (Connect_attach c w request aname)))
       = TagPool_Release (snd (TagPool_Allocate (fTagPool c)))
                         (fst (TagPool_Allocate (fTagPool c)))"
  by (simp add: Connect_attach_def Let_def split: prod.split sum.split)

lemma Allocate_Release_tags:
  assumes "TagPool_ok p"
  shows "tag_fBitmap (TagPool_Release (snd (TagPool_Allocate p)) (fst (TagPool_Allocate p)))
           = tag_fBitmap p"
proof -
  obtain tag p' where scan: "TagPool_scan p 0 = (tag, p')"
    by (cases "TagPool_scan p 0")
  from TagPool_scan_Release [OF assms scan] scan show ?thesis
    by (simp add: TagPool_Allocate_def)
qed

lemma Connect_attach_tags:
  assumes "TagPool_ok (fTagPool c)"
  shows "tag_fBitmap (fTagPool (fst (snd (Connect_attach c w request aname))))
           = tag_fBitmap (fTagPool c)"
  using Connect_attach_client [of c w request aname] Allocate_Release_tags [OF assms]
  by auto

lemma Connect_tags:
  assumes "TagPool_ok (fTagPool c)"
  shows "tag_fBitmap (fTagPool (fst (snd (Connect c w aname)))) = tag_fBitmap (fTagPool c)"
  using assms unfolding Connect_def Let_def
  by (simp add: Connect_attach_tags split: prod.split sum.split)

lemma Transaction_tags_in_use:
  "TagPool_ok (fTagPool c) \<Longrightarrow> tags_in_use (fst (snd (Transaction build c w))) = tags_in_use c"
  by (simp add: tags_in_use_def Transaction_tags)

text \<open>
  C4. Every operation of the client that takes a tag from the tag pool gives it back
  before it returns: after \<open>Connect\<close> (whose attach request allocates a tag) and after
  each of the eighteen protocol operations, whatever the transport answers and whichever
  way the operation ends (message allocation, request building, send or receive failure,
  \<open>Rlerror\<close>, a response of another type, a response that does not parse, success),
  the bitmap of the tag pool is the one the operation started with.
\<close>

theorem tags_released:
  assumes "TagPool_ok (fTagPool c)"
  shows "tags_in_use (fst (snd (Connect c w aname))) = tags_in_use c
    \<and> tags_in_use (fst (snd (Walk c w fid newfid path))) = tags_in_use c
    \<and> tags_in_use (fst (snd (WalkPath c w fid newfid nwname wnames))) = tags_in_use c
    \<and> tags_in_use (fst (snd (P9Client_Open c w fid flags))) = tags_in_use c
    \<and> tags_in_use (fst (snd (P9Client_Create c w fid name flags mode gid))) = tags_in_use c
    \<and> tags_in_use (fst (snd (P9Client_Read c w fid offset n))) = tags_in_use c
    \<and> tags_in_use (fst (snd (P9Client_Write c w fid offset buffer n))) = tags_in_use c
    \<and> tags_in_use (fst (snd (Clunk c w fid))) = tags_in_use c
    \<and> tags_in_use (fst (snd (P9Client_Remove c w fid))) = tags_in_use c
    \<and> tags_in_use (fst (snd (GetAttr c w fid req_mask))) = tags_in_use c
    \<and> tags_in_use (fst (snd (SetAttr c w fid valid mode uid gid fsize
                                  atime_sec atime_nsec mtime_sec mtime_nsec))) = tags_in_use c
    \<and> tags_in_use (fst (snd (P9Client_ReadDir c w fid offset n))) = tags_in_use c
    \<and> tags_in_use (fst (snd (Mkdir c w fid name mode gid want_qid))) = tags_in_use c
    \<and> tags_in_use (fst (snd (Unlink c w fid name flags))) = tags_in_use c
    \<and> tags_in_use (fst (snd (P9Client_Rename c w fid name newdirfid newname))) = tags_in_use c
    \<and> tags_in_use (fst (snd (StatFS c w fid))) = tags_in_use c
    \<and> tags_in_use (fst (snd (FSync c w fid dataOnly))) = tags_in_use c
    \<and> tags_in_use (fst (snd (P9Client_ReadLink c w fid targetSize))) = tags_in_use c
    \<and> tags_in_use (fst (snd (Symlink c w fid name target gid want_qid))) = tags_in_use c
    \<and> tags_in_use (fst (snd (Link c w newdirfid fid name))) = tags_in_use c"
proof -
  note t = Transaction_tags_in_use [OF assms]
  have "tags_in_use (fst (snd (Connect c w aname))) = tags_in_use c"
    using assms by (simp add: tags_in_use_def Connect_tags)
  moreover have "tags_in_use (fst (snd (Walk c w fid newfid path))) = tags_in_use c"
    using assms by (simp add: tags_in_use_def Walk_tags)
  ultimately show ?thesis
    by (simp only: operation_client t simp_thms)
qed

theorem tags_released_witness:
  "TagPool_ok (fTagPool (initial_client 8192))
   \<and> tags_in_use (initial_client 8192) = [0, 0, 0, 0, 0, 0, 0, 0]
   \<and> fst (TagPool_Allocate (fTagPool (initial_client 8192))) = 0
   \<and> tag_fBitmap (snd (TagPool_Allocate (fTagPool (initial_client 8192))))
       = [1, 0, 0, 0, 0, 0, 0, 0]
   \<and> tags_in_use (fst (snd (GetAttr (initial_client 8192)
                               (scripted_world [(B_OK, Rread_empty_frame)]) 5 0x7ff)))
       = [0, 0, 0, 0, 0, 0, 0, 0]"
proof -
  have ok: "TagPool_ok (fTagPool (initial_client 8192))"
    by (simp add: TagPool_ok_def initial_client_def scripted_world_def P9Client_Init_def
        P9Client_new_def FidPool_Init_def FidPool_new_def TagPool_Init_def TagPool_new_def
        allocate_def Let_def replicate_8_zero)
  have free: "tags_in_use (initial_client 8192) = [0, 0, 0, 0, 0, 0, 0, 0]"
    by (simp add: tags_in_use_def initial_client_def scripted_world_def P9Client_Init_def
        P9Client_new_def FidPool_Init_def FidPool_new_def TagPool_Init_def TagPool_new_def
        allocate_def Let_def replicate_8_zero)
  have taken: "TagPool_Allocate (fTagPool (initial_client 8192))
      = (0, \<lparr>tag_fBitmap = [1, 0, 0, 0, 0, 0, 0, 0], fMaxTags = 256, tag_fBitmapSize = 8,
              tag_fNextHint = 1\<rparr>)"
    by (simp add: TagPool_Allocate_def TagPool_scan.simps initial_client_def scripted_world_def
        P9Client_Init_def P9Client_new_def FidPool_Init_def FidPool_new_def TagPool_Init_def
        TagPool_new_def allocate_def Let_def replicate_8_zero)
  from tags_released [OF ok, where w = "scripted_world [(B_OK, Rread_empty_frame)]"
      and fid = 5 and req_mask = "0x7ff"]
  show ?thesis
    using ok free taken by simp
qed

subsection \<open>A walk that stops short\<close>

lemma uint32_le_max: "(x :: uint32) \<le> 4294967295"
proof -
  have "(4294967295 :: uint32) = - 1" by simp
  then show ?thesis by (simp only: word_n1_ge)
qed

lemma FidPool_scan_Release:
  "FidPool_ok p \<Longrightarrow> FidPool_scan p i = (fid, p')
   \<Longrightarrow> fid_fBitmap (FidPool_Release p' fid) = fid_fBitmap p
       \<and> fMaxFids p' = fMaxFids p
       \<and> (fid \<noteq> P9_NOFID \<longrightarrow> \<not> FidPool_IsValid p fid)"
proof (induction p i rule: FidPool_scan.induct)
  case (1 p i)
  show ?case
  proof (cases "i < unat (fMaxFids p)")
    case False
    with "1.prems" show ?thesis
      by (simp add: FidPool_scan.simps [of p i] FidPool_Release_def P9_NOFID_eq uint32_le_max)
  next
    case True
    let ?f = "(fid_fNextHint p + word_of_nat i) mod fMaxFids p"
    from True have pos: "0 < fMaxFids p"
      by (simp add: word_greater_zero_iff unat_gt_0 [symmetric]) 
    then have lt: "?f < fMaxFids p"
      by (rule word_mod_less_divisor)
    then have "unat ?f < unat (fMaxFids p)"
      by (simp add: word_less_nat_alt)
    then have idx: "unat (?f div 32) < length (fid_fBitmap p)"
      using "1.prems"(1) by (simp add: FidPool_ok_def unat_div)
    show ?thesis
    proof (cases "(fid_fBitmap p ! unat (?f div 32)) AND push_bit (unat (?f mod 32)) 1 = 0")
      case free: True
      from "1.prems"(2) True free have
        "fid = ?f"
        "p' = p\<lparr>fid_fBitmap := (fid_fBitmap p)[unat (?f div 32) :=
                 fid_fBitmap p ! unat (?f div 32) OR push_bit (unat (?f mod 32)) 1],
               fid_fNextHint := (?f + 1) mod fMaxFids p\<rparr>"
        by (auto simp add: FidPool_scan.simps [of p i] Let_def)
      then show ?thesis
        using lt idx free
        by (simp add: FidPool_Release_def FidPool_IsValid_def Let_def set_then_clear
            not_le [symmetric] list_update_same_conv)
    next
      case used: False
      with "1.prems"(2) True have "FidPool_scan p (i + 1) = (fid, p')"
        by (simp add: FidPool_scan.simps [of p i] Let_def)
      with "1.IH" True used "1.prems"(1) show ?thesis
        by (simp add: Let_def)
    qed
  qed
qed

lemma components_empty: "cstring p = [] \<Longrightarrow> components p = []"
  by (simp add: components_def)

lemma allocate_3:
  assumes "False \<notin> set (take 3 (heap w))"
  shows "allocate w = (True, w\<lparr>heap := drop (Suc 0) (heap w)\<rparr>)"
    and "allocate (w\<lparr>heap := drop (Suc 0) (heap w)\<rparr>) = (True, w\<lparr>heap := drop 2 (heap w)\<rparr>)"
    and "allocate (w\<lparr>heap := drop 2 (heap w)\<rparr>) = (True, w\<lparr>heap := drop 3 (heap w)\<rparr>)"
proof -
  show "allocate w = (True, w\<lparr>heap := drop (Suc 0) (heap w)\<rparr>)"
    using assms by (cases "heap w") (simp_all add: allocate_def numeral_3_eq_3)
  show "allocate (w\<lparr>heap := drop (Suc 0) (heap w)\<rparr>) = (True, w\<lparr>heap := drop 2 (heap w)\<rparr>)"
    using assms
    by (cases "heap w"; cases "tl (heap w)")
       (simp_all add: allocate_def numeral_3_eq_3 numeral_2_eq_2)
  show "allocate (w\<lparr>heap := drop 2 (heap w)\<rparr>) = (True, w\<lparr>heap := drop 3 (heap w)\<rparr>)"
    using assms
    by (cases "heap w"; cases "tl (heap w)"; cases "tl (tl (heap w))")
       (simp_all add: allocate_def numeral_3_eq_3 numeral_2_eq_2)
qed

lemma Walk_stops_short:
  assumes "False \<notin> set (take 3 (heap w))"
    and "nwname = word_of_nat (length (components name))"
    and "WalkPath c (w\<lparr>heap := drop 3 (heap w)\<rparr>) fid newfid nwname
           (take (unat nwname) (components name)) = (Inr (nwqid, qids), c1, w1)"
    and "nwqid < nwname"
  shows "Walk c w fid newfid (Some name)
           = ((B_ENTRY_NOT_FOUND,
               if nwqid > 0 then Some (qids ! (unat nwqid - 1)) else None), c1, w1)"
proof -
  from assms(4) have n0: "nwname \<noteq> 0"
    by (auto simp add: word_less_nat_alt)
  with assms(2) have "cstring name \<noteq> []"
    by (auto simp add: components_empty)
  moreover from assms(4) have "nwqid \<noteq> nwname"
    by simp
  ultimately show ?thesis
    using n0 assms(2,3)
    by (simp add: Walk_def Let_def allocate_3 [OF assms(1)])
qed

lemma WalkPath_pools:
  assumes "WalkPath c w fid newfid nwname wnames = (r, c1, w1)"
  shows "fFidPool c1 = fFidPool c"
proof -
  from assms have "snd (WalkPath c w fid newfid nwname wnames) = (c1, w1)"
    by simp
  then have "snd (Transaction (\<lambda>tag. BuildWalk tag fid newfid nwname wnames) c w) = (c1, w1)"
    by (simp only: WalkPath_client)
  then have "c1 = fst (snd (Transaction (\<lambda>tag. BuildWalk tag fid newfid nwname wnames) c w))"
    by simp
  then show ?thesis
    using Transaction_client [of "\<lambda>tag. BuildWalk tag fid newfid nwname wnames" c w] by auto
qed

text \<open>
  C3. \<open>Walk\<close> on a path with components, whose three allocations succeed and whose
  \<open>Twalk\<close> transaction (\<open>WalkPath\<close>) returns an \<open>Rwalk\<close> with \<open>nwqid < nwname\<close>, returns
  \<open>B_ENTRY_NOT_FOUND\<close>. \<open>Walk\<close> itself leaves the pool alone; its one caller with a
  path, \<open>Inode::WalkToChild\<close>, which took \<open>newfid\<close> from the pool, returns the error and
  releases \<open>newfid\<close>: the bitmap of the FID pool is the one from before the call, and
  \<open>newfid\<close> is not allocated in it.
\<close>

theorem Walk_short_reply:
  assumes "False \<notin> set (take 3 (heap w))"
    and "nwname = word_of_nat (length (components name))"
    and "WalkPath c (w\<lparr>heap := drop 3 (heap w)\<rparr>) fid newfid nwname
           (take (unat nwname) (components name)) = (Inr (nwqid, qids), c1, w1)"
    and "nwqid < nwname"
  shows "fst (fst (Walk c w fid newfid (Some name))) = B_ENTRY_NOT_FOUND
    \<and> (FidPool_ok (fFidPool (fClient v)) \<longrightarrow> AllocateFid (fClient v) = (newfid, c)
         \<longrightarrow> newfid \<noteq> P9_NOFID \<longrightarrow> fFid i = fid
         \<longrightarrow> fst (WalkToChild i v w name) = Inl B_ENTRY_NOT_FOUND
             \<and> fids_in_use (fClient (fst (snd (WalkToChild i v w name))))
                 = fids_in_use (fClient v)
             \<and> \<not> FidPool_IsValid (fFidPool (fClient (fst (snd (WalkToChild i v w name)))))
                   newfid)"
proof (intro conjI impI)
  note walk = Walk_stops_short [OF assms]
  show "fst (fst (Walk c w fid newfid (Some name))) = B_ENTRY_NOT_FOUND"
    by (simp add: walk)
  assume ok: "FidPool_ok (fFidPool (fClient v))"
    and alloc: "AllocateFid (fClient v) = (newfid, c)"
    and some: "newfid \<noteq> P9_NOFID"
    and fid: "fFid i = fid"
  from alloc have scan: "FidPool_scan (fFidPool (fClient v)) 0 = (newfid, fFidPool c)"
    by (auto simp add: AllocateFid_def FidPool_Allocate_def split: prod.splits)
  note released = FidPool_scan_Release [OF ok scan]
  have pool: "fFidPool c1 = fFidPool c"
    using assms(3) by (rule WalkPath_pools)
  have child: "WalkToChild i v w name
      = (Inl B_ENTRY_NOT_FOUND, v\<lparr>fClient := ReleaseFid c1 newfid\<rparr>, w1)"
    using alloc some fid by (simp add: WalkToChild_def walk)
  show "fst (WalkToChild i v w name) = Inl B_ENTRY_NOT_FOUND"
    by (simp add: child)
  show bitmap: "fids_in_use (fClient (fst (snd (WalkToChild i v w name))))
      = fids_in_use (fClient v)"
    using released by (simp add: child fids_in_use_def ReleaseFid_def pool)
  have "fMaxFids (FidPool_Release (fFidPool c) newfid) = fMaxFids (fFidPool (fClient v))"
    using released by (simp add: FidPool_Release_def Let_def)
  with bitmap released some
  show "\<not> FidPool_IsValid (fFidPool (fClient (fst (snd (WalkToChild i v w name))))) newfid"
    by (simp add: child fids_in_use_def ReleaseFid_def pool FidPool_IsValid_def
        split: if_splits)
qed

theorem Walk_short_reply_witness:
  "FidPool_ok (fFidPool (initial_client 8192))
   \<and> fst (AllocateFid (initial_client 8192)) = 1
   \<and> fids_in_use (snd (AllocateFid (initial_client 8192))) = [3, 0, 0, 0, 0, 0, 0, 0]
   \<and> fst (WalkPath (snd (AllocateFid (initial_client 8192)))
             (scripted_world [(B_OK, Rwalk_empty_frame)]) 1 1 1 [bytes_of ''a''])
       = Inr (0, [])
   \<and> fst (fst (Walk (snd (AllocateFid (initial_client 8192)))
                  (scripted_world [(B_OK, Rwalk_empty_frame)]) 1 1 (Some (bytes_of ''a''))))
       = B_ENTRY_NOT_FOUND
   \<and> fst (WalkToChild root_directory (Volume_new\<lparr>fClient := initial_client 8192\<rparr>)
             (scripted_world [(B_OK, Rwalk_empty_frame)]) (bytes_of ''a''))
       = Inl B_ENTRY_NOT_FOUND
   \<and> fids_in_use (fClient (fst (snd (WalkToChild root_directory
                        (Volume_new\<lparr>fClient := initial_client 8192\<rparr>)
                        (scripted_world [(B_OK, Rwalk_empty_frame)]) (bytes_of ''a'')))))
       = [1, 0, 0, 0, 0, 0, 0, 0]"
proof -
  let ?w = "scripted_world [(B_OK, Rwalk_empty_frame)]"
  let ?v = "Volume_new\<lparr>fClient := initial_client 8192\<rparr> :: script Volume"
  let ?c = "snd (AllocateFid (initial_client 8192))"
  let ?walk = "WalkPath ?c (?w\<lparr>heap := drop 3 (heap ?w)\<rparr>) 1 1 1
                 (take (unat (1 :: uint16)) (components (bytes_of ''a'')))"
  have ok: "FidPool_ok (fFidPool (fClient ?v))"
    by (simp add: FidPool_ok_def client_defs)
  have before: "fids_in_use (fClient ?v) = [1, 0, 0, 0, 0, 0, 0, 0]"
    by (simp add: fids_in_use_def client_defs)
  have child: "fst (AllocateFid (initial_client 8192)) = 1"
    and after: "fids_in_use ?c = [3, 0, 0, 0, 0, 0, 0, 0]"
    by (simp_all add: fids_in_use_def AllocateFid_def client_defs)
  have heap: "False \<notin> set (take 3 (heap ?w))"
    by (simp add: scripted_world_def)
  have names: "components (bytes_of ''a'') = [bytes_of ''a'']" "components [97] = [[97]]"
    and count: "(1 :: uint16) = word_of_nat (length (components (bytes_of ''a'')))"
    by (simp_all add: components_def cstring_def bytes_of_def)
  have same: "?w\<lparr>heap := drop 3 (heap ?w)\<rparr> = ?w"
    by (simp add: scripted_world_def)
  have reply: "fst ?walk = Inr (0, [])"
    by (simp add: names same AllocateFid_def WalkPath_def BuildWalk_def ParseWalk_def
        codec_defs client_defs frame_defs)
  then have walk: "?walk = (Inr (0, []), fst (snd ?walk), snd (snd ?walk))"
    by (simp add: prod_eq_iff)
  have short: "(0 :: uint16) < 1"
    by simp
  have alloc: "AllocateFid (fClient ?v) = (1, ?c)"
    using child by (simp add: prod_eq_iff)
  have some: "(1 :: uint32) \<noteq> P9_NOFID"
    by (simp add: P9_NOFID_eq)
  have inode: "fFid root_directory = 1"
    by (simp add: root_directory_def Inode_new_def)
  from Walk_short_reply [OF heap count walk short, of ?v root_directory] ok alloc some inode
  show ?thesis
    using child after before reply by (simp add: names same)
qed

subsection \<open>Negotiation of msize\<close>




end
